theory Spec2Isabelle
  imports Complex_Main "HOL-Library.Multiset"
begin

section \<open>AzadiDNSTester: a model of the DNS server tester\<close>

text \<open>
  The program reads candidate resolver addresses from \<^verbatim>\<open>dns_servers.txt\<close>, probes each
  one with a DNS query on a thread pool, appends every working server to
  \<^verbatim>\<open>working_dns.txt\<close> the moment it is found, and prints a summary.

  Python strings are modelled as HOL strings whose characters are the code points below
  256. The character classes of \<^verbatim>\<open>str.strip\<close>, \<^verbatim>\<open>str.isdigit\<close> and the regular
  expression's \<^verbatim>\<open>\b\<close> are the Unicode ones, restricted to that range. Python floats
  that hold a measured time are modelled by the rational number they denote.
\<close>

subsection \<open>Characters and strings\<close>

definition is_ascii_digit :: "char \<Rightarrow> bool" where
  "is_ascii_digit c = (c \<in> set ''0123456789'')"

text \<open>\<^verbatim>\<open>str.isspace\<close> on one character.\<close>

definition is_space :: "char \<Rightarrow> bool" where
  "is_space c = (c \<in> set [CHR 0x09, CHR 0x0A, CHR 0x0B, CHR 0x0C, CHR 0x0D,
                           CHR 0x1C, CHR 0x1D, CHR 0x1E, CHR 0x1F, CHR '' '',
                           CHR 0x85, CHR 0xA0])"

text \<open>\<^verbatim>\<open>str.strip()\<close>: whitespace removed at both ends.\<close>

definition strip :: "string \<Rightarrow> string" where
  "strip s = rev (dropWhile is_space (rev (dropWhile is_space s)))"

text \<open>
  \<^verbatim>\<open>str.isdigit()\<close>: true when the string is not empty and every character is a digit; the
  superscripts one, two and three count as digits.
\<close>

definition is_digit_char :: "char \<Rightarrow> bool" where
  "is_digit_char c = (is_ascii_digit c \<or> c \<in> set [CHR 0xB2, CHR 0xB3, CHR 0xB9])"

definition isdigit :: "string \<Rightarrow> bool" where
  "isdigit s = (s \<noteq> [] \<and> list_all is_digit_char s)"

definition startswith :: "string \<Rightarrow> string \<Rightarrow> bool" where
  "startswith s p = (take (length p) s = p)"

definition digit_val :: "char \<Rightarrow> nat" where
  "digit_val c = (if is_ascii_digit c then of_char c - 48
                  else if c \<in> set ''abcdef'' then of_char c - 87
                  else of_char c - 55)"

definition num_val :: "nat \<Rightarrow> string \<Rightarrow> nat" where
  "num_val base ds = foldl (\<lambda>a c. base * a + digit_val c) 0 ds"

text \<open>\<^verbatim>\<open>str(n)\<close> for an integer.\<close>

fun str_nat :: "nat \<Rightarrow> string" where
  "str_nat n = (if n < 10 then [''0123456789'' ! n]
                else str_nat (n div 10) @ [''0123456789'' ! (n mod 10)])"

declare str_nat.simps [simp del]

definition str_int :: "int \<Rightarrow> string" where
  "str_int i = (if i < 0 then ''-'' @ str_nat (nat (- i)) else str_nat (nat i))"

text \<open>
  \<^verbatim>\<open>int(s)\<close> on a string: surrounding whitespace is dropped, a sign may lead, and single
  underscores may stand between digits. \<open>None\<close> is the \<^verbatim>\<open>ValueError\<close>. (The
  interpreter's optional cap on the length of the literal is not modelled.)
\<close>

fun int_body_ok :: "string \<Rightarrow> bool" where
  "int_body_ok [] = False"
| "int_body_ok [c] = is_ascii_digit c"
| "int_body_ok (c # d # r) =
     (if is_ascii_digit c then int_body_ok (d # r)
      else c = CHR ''_'' \<and> is_ascii_digit d \<and> int_body_ok (d # r))"

definition int_body :: "string \<Rightarrow> nat option" where
  "int_body s = (case s of [] \<Rightarrow> None
     | c # r \<Rightarrow> if is_ascii_digit c \<and> int_body_ok s
                then Some (num_val 10 (filter is_ascii_digit s)) else None)"

definition py_int :: "string \<Rightarrow> int option" where
  "py_int s = (case strip s of [] \<Rightarrow> None
     | c # r \<Rightarrow> if c = CHR ''-'' then map_option (\<lambda>n. - int n) (int_body r)
                else if c = CHR ''+'' then map_option int (int_body r)
                else map_option int (int_body (c # r)))"

text \<open>\<^verbatim>\<open>format(x, '.pf')\<close>: fixed point with \<open>p\<close> decimals, ties to even.\<close>

definition round_half_even :: "rat \<Rightarrow> int" where
  "round_half_even x = (let f = \<lfloor>x\<rfloor>; d = x - of_int f in
     if d < 1 / 2 then f else if 1 / 2 < d then f + 1 else if even f then f else f + 1)"

definition fmt_f :: "nat \<Rightarrow> rat \<Rightarrow> string" where
  "fmt_f p x = (let n = nat (round_half_even (\<bar>x\<bar> * 10 ^ p));
                    frac = str_nat (n mod 10 ^ p)
     in (if x < 0 then ''-'' else '''') @ str_nat (n div 10 ^ p) @
        (if p = 0 then '''' else ''.'' @ replicate (p - length frac) CHR ''0'' @ frac))"

text \<open>\<^verbatim>\<open>format(s, '<15')\<close>: padded with spaces on the right, never cut.\<close>

definition ljust :: "nat \<Rightarrow> string \<Rightarrow> string" where
  "ljust w s = s @ replicate (w - length s) CHR '' ''"

subsection \<open>Exceptions and the world outside the program\<close>

datatype py_exn =
    OSError string
  | ValueError string
  | TypeError string
  | EOFError
  | RecursionError
  | ZeroDivisionError

fun exn_str :: "py_exn \<Rightarrow> string" where
  "exn_str (OSError m) = m"
| "exn_str (ValueError m) = m"
| "exn_str (TypeError m) = m"
| "exn_str EOFError = ''''"
| "exn_str RecursionError = ''maximum recursion depth exceeded''"
| "exn_str ZeroDivisionError = ''division by zero''"

text \<open>
  What \<^verbatim>\<open>resolver.resolve(domain, 'A')\<close> does: it returns an answer, which holds at least
  one record (the library raises \<^verbatim>\<open>NoAnswer\<close> itself when the response has none), or it
  raises. \<open>Answers first rest\<close> carries the text of the records; the exceptions are listed
  in the order of the handlers of \<^verbatim>\<open>test_single_server\<close>, each with its \<^verbatim>\<open>str(e)\<close>
  where the handler reads it.
\<close>

datatype query_result =
    Answers string "string list"
  | NXDOMAIN
  | Timeout
  | NoAnswer
  | DNSException string
  | OtherException string

record resolver =
  configure :: bool
  nameservers :: "string list"
  timeout :: int
  lifetime :: int

text \<open>A line on the terminal: \<^verbatim>\<open>print\<close>, the prompt of \<^verbatim>\<open>input\<close>, and the lines of
  \<^verbatim>\<open>tqdm.write\<close> that start with a check mark or a cross (code points above 255).\<close>

datatype out =
    Print string
  | Prompt string
  | CheckMark string
  | CrossMark string

text \<open>
  The state the program reads and writes: the two files (as their text, \<open>None\<close> when the
  file does not exist), the lines still to be typed, the terminal, and the DNS queries
  sent so far, each with the resolver that sent it, the name and the record type.
\<close>

record world =
  ledger :: "string option"
  servers_file :: "string option"
  stdin :: "string list"
  stdout :: "out list"
  queries :: "(resolver \<times> string \<times> string) list"

type_synonym probe_result = "bool \<times> (string \<times> rat option) \<times> string"

text \<open>
  What the program cannot decide: the clock, the resolver library and the network, the
  order in which the pool runs and completes its tasks, float rounding and the
  interpreter's recursion limit.
  \<^item> \<open>now\<close>: \<^verbatim>\<open>datetime.now().strftime(...)\<close>;
  \<^item> \<open>nameserver_error\<close>: the message of the \<^verbatim>\<open>ValueError\<close> that assigning
    \<^verbatim>\<open>resolver.nameservers\<close> raises for this text, if it raises;
  \<^item> \<open>resolve\<close>: the outcome of the query;
  \<^item> \<open>elapsed_ms\<close>: \<^verbatim>\<open>(time.time() - start_time) * 1000\<close> for the probe of a server;
  \<^item> \<open>run_order\<close>, \<open>completion\<close>: the order in which the submitted tasks run and the
    order in which \<^verbatim>\<open>as_completed\<close> yields the futures, given the number of workers;
  \<^item> \<open>fl\<close>: rounding of an exact quotient or product to a float;
  \<^item> \<open>run_seconds\<close>: \<^verbatim>\<open>time.time() - start_time\<close> for the whole run;
  \<^item> \<open>recursion_limit\<close>: how many nested calls of \<^verbatim>\<open>load_servers\<close> the interpreter
    allows.
\<close>

record env =
  now :: string
  nameserver_error :: "string \<Rightarrow> string option"
  resolve :: "resolver \<Rightarrow> string \<Rightarrow> string \<Rightarrow> query_result"
  elapsed_ms :: "string \<Rightarrow> rat"
  run_order :: "nat \<Rightarrow> string list \<Rightarrow> string list"
  completion :: "nat \<Rightarrow> (string \<times> (py_exn + probe_result)) list
                   \<Rightarrow> (string \<times> (py_exn + probe_result)) list"
  fl :: "rat \<Rightarrow> rat"
  run_seconds :: rat
  recursion_limit :: nat

definition print :: "string \<Rightarrow> world \<Rightarrow> world" where
  "print s w = w\<lparr>stdout := stdout w @ [Print s]\<rparr>"

subsection \<open>\<^verbatim>\<open>socket.inet_aton\<close>\<close>

text \<open>
  The validity check of \<^verbatim>\<open>test_single_server\<close> is the C library's \<^verbatim>\<open>inet_aton\<close>, as
  inet(3) describes it: one to four numbers separated by dots, each in decimal, octal
  (leading \<^verbatim>\<open>0\<close>) or hexadecimal (leading \<^verbatim>\<open>0x\<close>); every number followed by a dot is at
  most 255, and the last one fills the remaining bytes (at most \<open>2^32 - 1\<close>, \<open>2^24 - 1\<close>,
  \<open>2^16 - 1\<close> or 255 after zero, one, two or three dots). The text may go on after the
  last number only with an ASCII whitespace character.
\<close>

definition is_hex :: "char \<Rightarrow> bool" where
  "is_hex c = (c \<in> set ''0123456789abcdefABCDEF'')"

definition is_oct :: "char \<Rightarrow> bool" where
  "is_oct c = (c \<in> set ''01234567'')"

definition is_c_space :: "char \<Rightarrow> bool" where
  "is_c_space c = (c \<in> set [CHR 0x09, CHR 0x0A, CHR 0x0B, CHR 0x0C, CHR 0x0D, CHR '' ''])"

text \<open>\<^verbatim>\<open>strtoul(s, &end, 0)\<close> on a text that starts with a digit: the value and the rest.\<close>

definition strtoul :: "string \<Rightarrow> nat \<times> string" where
  "strtoul s =
     (if (startswith s ''0x'' \<or> startswith s ''0X'') \<and>
         (case drop 2 s of [] \<Rightarrow> False | c # _ \<Rightarrow> is_hex c)
      then (num_val 16 (takeWhile is_hex (drop 2 s)), dropWhile is_hex (drop 2 s))
      else if startswith s ''0''
      then (num_val 8 (takeWhile is_oct s), dropWhile is_oct s)
      else (num_val 10 (takeWhile is_ascii_digit s), dropWhile is_ascii_digit s))"

lemma strtoul_rest_length: "strtoul s = (v, r) \<Longrightarrow> length r \<le> length s"
  by (auto simp: strtoul_def split: if_splits
      intro: order_trans [OF length_dropWhile_le])

text \<open>The loop of \<^verbatim>\<open>inet_aton\<close>; \<open>k\<close> counts the bytes stored so far.\<close>

function aton_parts :: "nat \<Rightarrow> string \<Rightarrow> bool" where
  "aton_parts k s =
     (case s of [] \<Rightarrow> False
      | c # _ \<Rightarrow>
          if \<not> is_ascii_digit c then False
          else (case strtoul s of (v, r) \<Rightarrow>
            if v > 0xffffffff then False
            else (case r of
                [] \<Rightarrow> v \<le> [0xffffffff, 0xffffff, 0xffff, 0xff] ! k
              | d # r' \<Rightarrow>
                  if d = CHR ''.''
                  then (if k > 2 \<or> v > 0xff then False else aton_parts (Suc k) r')
                  else is_c_space d \<and> v \<le> [0xffffffff, 0xffffff, 0xffff, 0xff] ! k)))"
  by pat_completeness auto
termination
proof (relation "measure (\<lambda>(k, s). length s)", goal_cases)
  case 1
  show ?case by simp
next
  case (2 k s c cs v r d r')
  then have "strtoul s = (v, d # r')" by simp
  then have "length (d # r') \<le> length s" by (rule strtoul_rest_length)
  then show ?case by simp
qed

declare aton_parts.simps [simp del]

text \<open>
  \<^verbatim>\<open>socket.inet_aton(s)\<close>: a text with a NUL character never reaches the C function
  (\<^verbatim>\<open>ValueError\<close>); a text the C function rejects raises \<^verbatim>\<open>OSError\<close>, which is
  \<^verbatim>\<open>socket.error\<close>.
\<close>

definition inet_aton :: "string \<Rightarrow> py_exn + unit" where
  "inet_aton s =
     (if CHR 0x00 \<in> set s then Inl (ValueError ''embedded null character'')
      else if aton_parts 0 s then Inr ()
      else Inl (OSError ''illegal IP address string passed to inet_aton''))"

subsection \<open>The ledger: \<^verbatim>\<open>write_header\<close> and \<^verbatim>\<open>real_time_save\<close>\<close>

text \<open>
  Both functions hold \<^verbatim>\<open>file_lock\<close> for the whole of open, write and close, so each is
  one step on the file. The file system of the model accepts every write; the handlers
  for a failed write have nothing to catch.
\<close>

definition nl :: string where
  "nl = [CHR 0x0A]"

definition header_text :: "string \<Rightarrow> string \<Rightarrow> string" where
  "header_text stamp test_domain =
     ''# Working DNS servers - Tested: '' @ stamp @ nl @
     ''# Test domain: '' @ test_domain @ nl @
     ''# Format: IP (response_time_ms)'' @ nl"

definition write_header :: "env \<Rightarrow> string \<Rightarrow> world \<Rightarrow> world" where
  "write_header e test_domain w =
     print ''Header written to working_dns.txt''
       (w\<lparr>ledger := Some (header_text (now e) test_domain)\<rparr>)"

definition real_time_save :: "string \<Rightarrow> world \<Rightarrow> world" where
  "real_time_save server_info w =
     w\<lparr>ledger := Some ((case ledger w of None \<Rightarrow> [] | Some text \<Rightarrow> text) @ server_info @ nl)\<rparr>"

subsection \<open>\<^verbatim>\<open>test_single_server\<close>\<close>

text \<open>
  The probe of one server. \<open>Inl\<close> is an exception that leaves the function: the
  \<^verbatim>\<open>ValueError\<close> of \<^verbatim>\<open>inet_aton\<close>, which \<^verbatim>\<open>except socket.error\<close> does not catch, and
  the one of the assignment to \<^verbatim>\<open>resolver.nameservers\<close>, which stands before the
  \<^verbatim>\<open>try\<close>. The query is logged with the resolver as it is when \<^verbatim>\<open>resolve\<close> is called.
\<close>

definition test_single_server ::
  "env \<Rightarrow> string \<Rightarrow> string \<Rightarrow> int \<Rightarrow> world \<Rightarrow> (py_exn + probe_result) \<times> world" where
  "test_single_server e server domain tmo w =
     (case inet_aton server of
        Inl (OSError m) \<Rightarrow> (Inr (False, (server, None), server @ '' INVALID IP''), w)
      | Inl x \<Rightarrow> (Inl x, w)
      | Inr u \<Rightarrow>
         (case nameserver_error e server of
            Some m \<Rightarrow> (Inl (ValueError m), w)
          | None \<Rightarrow>
             let r = \<lparr>configure = False, nameservers = [server], timeout = tmo, lifetime = tmo\<rparr>;
                 w1 = w\<lparr>queries := queries w @ [(r, domain, ''A'')]\<rparr>;
                 response_time = elapsed_ms e server;
                 ms = fmt_f 0 response_time
             in (case resolve e r domain ''A'' of
                   Answers first_ip others \<Rightarrow>
                     (Inr (True, (server, Some response_time),
                           server @ '' OK '' @ ms @ ''ms ('' @ first_ip @ '') - '' @
                           str_nat (Suc (length others)) @ '' records''),
                      real_time_save (server @ '' ('' @ ms @ ''ms)'') w1)
                 | NXDOMAIN \<Rightarrow>
                     (Inr (False, (server, Some response_time),
                           server @ '' NXDOMAIN ('' @ ms @ ''ms)''), w1)
                 | Timeout \<Rightarrow>
                     (Inr (False, (server, Some response_time),
                           server @ '' TIMEOUT ('' @ str_int tmo @ ''s, '' @ ms @ ''ms)''), w1)
                 | NoAnswer \<Rightarrow>
                     (Inr (False, (server, Some response_time),
                           server @ '' NO ANSWER ('' @ ms @ ''ms)''), w1)
                 | DNSException m \<Rightarrow>
                     (Inr (False, (server, Some response_time),
                           server @ '' DNS ERROR ('' @ take 20 m @ '', '' @ ms @ ''ms)''), w1)
                 | OtherException m \<Rightarrow>
                     (Inr (False, (server, Some response_time),
                           server @ '' ERROR ('' @ take 20 m @ '', '' @ ms @ ''ms)''), w1))))"

subsection \<open>\<^verbatim>\<open>load_servers\<close> and \<^verbatim>\<open>create_sample_servers\<close>\<close>

text \<open>
  The pattern of \<^verbatim>\<open>load_servers\<close> is built from character classes, sequence,
  alternation, greedy option and the word boundary \<^verbatim>\<open>\b\<close>. \<open>rmatch\<close> is the backtracking
  matcher: it tries the alternatives from left to right, the greedy option first with and
  then without its argument, and hands the position after a match to the continuation,
  whose failure makes it try the next alternative. A position is the character before it,
  if any, and the text from it on.
\<close>

datatype re = Cls string | Seq re re | Alt re re | Opt re | WordB

text \<open>\<^verbatim>\<open>\w\<close>: the underscore and every character that \<^verbatim>\<open>str.isalnum\<close> accepts.\<close>

definition is_word :: "char \<Rightarrow> bool" where
  "is_word c = (let n = (of_char c :: nat) in
     c = CHR ''_'' \<or> (48 \<le> n \<and> n \<le> 57) \<or> (65 \<le> n \<and> n \<le> 90) \<or> (97 \<le> n \<and> n \<le> 122) \<or>
     n \<in> set [0xAA, 0xB2, 0xB3, 0xB5, 0xB9, 0xBA, 0xBC, 0xBD, 0xBE] \<or>
     (0xC0 \<le> n \<and> n \<le> 0xD6) \<or> (0xD8 \<le> n \<and> n \<le> 0xF6) \<or> 0xF8 \<le> n)"

definition at_boundary :: "char option \<times> string \<Rightarrow> bool" where
  "at_boundary ps = (case ps of (p, s) \<Rightarrow>
     (case p of None \<Rightarrow> False | Some c \<Rightarrow> is_word c) \<noteq>
     (case s of [] \<Rightarrow> False | c # _ \<Rightarrow> is_word c))"

primrec rmatch ::
  "re \<Rightarrow> (char option \<times> string \<Rightarrow> string option) \<Rightarrow> char option \<times> string \<Rightarrow> string option" where
  "rmatch (Cls cs) = (\<lambda>k ps. case snd ps of [] \<Rightarrow> None
                       | c # s \<Rightarrow> if c \<in> set cs then k (Some c, s) else None)"
| "rmatch (Seq a b) = (\<lambda>k. rmatch a (rmatch b k))"
| "rmatch (Alt a b) = (\<lambda>k ps. case rmatch a k ps of Some r \<Rightarrow> Some r | None \<Rightarrow> rmatch b k ps)"
| "rmatch (Opt a) = (\<lambda>k ps. case rmatch a k ps of Some r \<Rightarrow> Some r | None \<Rightarrow> k ps)"
| "rmatch WordB = (\<lambda>k ps. if at_boundary ps then k ps else None)"

text \<open>\<^verbatim>\<open>(?:25[0-5]|2[0-4][0-9]|[01]?[0-9][0-9]?)\<close>\<close>

definition octet :: re where
  "octet = Alt (Seq (Cls ''2'') (Seq (Cls ''5'') (Cls ''012345'')))
          (Alt (Seq (Cls ''2'') (Seq (Cls ''01234'') (Cls ''0123456789'')))
               (Seq (Opt (Cls ''01'')) (Seq (Cls ''0123456789'') (Opt (Cls ''0123456789'')))))"

definition ip_pattern :: re where
  "ip_pattern = Seq WordB
     (Seq (Seq octet (Cls ''.'')) (Seq (Seq octet (Cls ''.'')) (Seq (Seq octet (Cls ''.''))
     (Seq octet WordB))))"

text \<open>The rest of the text after a match of \<open>ip_pattern\<close> at a position.\<close>

definition match_here :: "char option \<times> string \<Rightarrow> string option" where
  "match_here ps = rmatch ip_pattern (\<lambda>q. Some (snd q)) ps"

text \<open>
  \<^verbatim>\<open>ip_pattern.findall(content)\<close>: the matches from left to right, none overlapping. The
  first argument counts the characters of the last match that are still to be passed.
\<close>

fun scan :: "nat \<Rightarrow> char option \<Rightarrow> string \<Rightarrow> string list" where
  "scan n p [] = []"
| "scan (Suc n) p (c # s) = scan n (Some c) s"
| "scan 0 p (c # s) =
     (case match_here (p, c # s) of
        None \<Rightarrow> scan 0 (Some c) s
      | Some r \<Rightarrow> take (length (c # s) - length r) (c # s) #
                  scan (length (c # s) - length r - 1) (Some c) s)"

definition findall :: "string \<Rightarrow> string list" where
  "findall content = scan 0 None content"

definition sample_servers :: "string list" where
  "sample_servers = [''1.1.1.1'', ''1.0.0.1'', ''8.8.8.8'', ''8.8.4.4'', ''9.9.9.9'',
     ''208.67.222.222'', ''208.67.220.220'', ''4.2.2.1'', ''4.2.2.2'']"

text \<open>\<^verbatim>\<open>create_sample_servers\<close> returns at once when the file exists.\<close>

definition create_sample_servers :: "world \<Rightarrow> world" where
  "create_sample_servers w =
     (if servers_file w \<noteq> None then w
      else print (''Created sample dns_servers.txt with '' @ str_nat (length sample_servers) @
                  '' servers'')
             (w\<lparr>servers_file := Some (concat (map (\<lambda>server. server @ nl) sample_servers))\<rparr>))"

text \<open>
  \<^verbatim>\<open>load_servers\<close> calls itself after \<^verbatim>\<open>create_sample_servers\<close>. The first argument is
  the number of nested calls the interpreter still allows: at 0 the call raises
  \<^verbatim>\<open>RecursionError\<close>. The call for a file without addresses stands inside the
  \<^verbatim>\<open>try\<close>, so \<^verbatim>\<open>except Exception\<close> catches what it raises and returns the empty list; the
  call for a missing file stands in the handler of \<^verbatim>\<open>FileNotFoundError\<close>, where nothing
  catches. \<^verbatim>\<open>list(set(all_ips))\<close> keeps one copy of each address, in an order Python does
  not specify; the model keeps each address at its last occurrence.
\<close>

fun load_servers :: "string \<Rightarrow> nat \<Rightarrow> world \<Rightarrow> (py_exn + string list) \<times> world" where
  "load_servers filepath 0 w = (Inl RecursionError, w)"
| "load_servers filepath (Suc depth) w =
     (case servers_file w of
        None \<Rightarrow>
          load_servers filepath depth
            (create_sample_servers (print (filepath @ '' not found. Creating sample file...'') w))
      | Some content \<Rightarrow>
          let all_ips = findall content;
              servers = remdups all_ips;
              w1 = print (''Extracted '' @ str_nat (length servers) @
                          '' UNIQUE IPv4 addresses from '' @ filepath) w;
              w2 = print (''Total IPs found (with duplicates): '' @ str_nat (length all_ips)) w1;
              w3 = print (''UNIQUE IPs:  '' @ str_nat (length servers)) w2
          in if servers = []
             then (case load_servers filepath depth
                          (create_sample_servers
                             (print ''No valid IPv4 addresses found. Creating sample file...'' w3)) of
                     (Inl x, w4) \<Rightarrow> (Inr [], print (''Error loading servers: '' @ exn_str x) w4)
                   | (Inr found, w4) \<Rightarrow> (Inr found, w4))
             else (Inr servers, w3))"

subsection \<open>The prompts\<close>

text \<open>\<^verbatim>\<open>input(prompt)\<close>: the prompt goes to the terminal; at the end of the input the call
  raises \<^verbatim>\<open>EOFError\<close>.\<close>

definition input_line :: "string \<Rightarrow> world \<Rightarrow> (py_exn + string) \<times> world" where
  "input_line prompt w =
     (let w1 = w\<lparr>stdout := stdout w @ [Prompt prompt]\<rparr>
      in case stdin w of
           [] \<Rightarrow> (Inl EOFError, w1)
         | l # ls \<Rightarrow> (Inr l, w1\<lparr>stdin := ls\<rparr>))"

lemma input_line_shorter:
  "input_line prompt w = (Inr l, w') \<Longrightarrow> length (stdin w') < length (stdin w)"
  by (auto simp: input_line_def Let_def split: list.splits)

lemma stdin_print [simp]: "stdin (print s w) = stdin w"
  by (simp add: print_def)

function get_worker_count :: "world \<Rightarrow> (py_exn + int) \<times> world" where
  "get_worker_count w =
     (case input_line ''Workers: ''
             (print ''  Enter number (1-500) or press Enter for 100''
               (print (nl @ ''Workers (parallel tests, default: 100, max: 500):'') w)) of
        (Inl x, w1) \<Rightarrow> (Inl x, w1)
      | (Inr l, w1) \<Rightarrow>
          let choice = strip l
          in if choice = [] then (Inr 100, w1)
             else (case py_int choice of
                     None \<Rightarrow> get_worker_count (print ''Invalid! Enter a number'' w1)
                   | Some workers \<Rightarrow>
                       if 1 \<le> workers \<and> workers \<le> 500 then (Inr workers, w1)
                       else get_worker_count (print ''Invalid! Use 1-500'' w1)))"
  by pat_completeness auto
termination
  by (relation "measure (\<lambda>w. length (stdin w))")
     (auto dest!: input_line_shorter [OF sym])

declare get_worker_count.simps [simp del]

function get_timeout :: "world \<Rightarrow> (py_exn + int) \<times> world" where
  "get_timeout w =
     (case input_line ''Timeout: ''
             (print ''  Enter number (1-10) or press Enter for 3''
               (print (nl @ ''Timeout per test (seconds, default: 3, range: 1-10):'') w)) of
        (Inl x, w1) \<Rightarrow> (Inl x, w1)
      | (Inr l, w1) \<Rightarrow>
          let choice = strip l
          in if choice = [] then (Inr 3, w1)
             else (case py_int choice of
                     None \<Rightarrow> get_timeout (print ''Invalid! Enter a number'' w1)
                   | Some tmo \<Rightarrow>
                       if 1 \<le> tmo \<and> tmo \<le> 10 then (Inr tmo, w1)
                       else get_timeout (print ''Invalid! Use 1-10 seconds'' w1)))"
  by pat_completeness auto
termination
  by (relation "measure (\<lambda>w. length (stdin w))")
     (auto dest!: input_line_shorter [OF sym])

declare get_timeout.simps [simp del]

definition domains :: "string list" where
  "domains = [''google.com'', ''cloudflare.com'', ''example.com'']"

text \<open>
  The loop of \<^verbatim>\<open>get_test_domain\<close>, after the menu is printed. The three tests stand in
  the order of the source. \<open>menu_number\<close> is the test
  \<^verbatim>\<open>choice.isdigit() and 1 <= int(choice) <= 3\<close> together with the number it found:
  \<^verbatim>\<open>int(choice)\<close> is evaluated only when \<^verbatim>\<open>choice.isdigit()\<close> holds; it raises
  \<^verbatim>\<open>ValueError\<close> on a superscript digit, and nothing catches it.
\<close>

definition menu_number :: "string \<Rightarrow> py_exn + int option" where
  "menu_number choice =
     (if isdigit choice
      then (case py_int choice of
              None \<Rightarrow> Inl (ValueError (''invalid literal for int() with base 10: '' @ choice))
            | Some n \<Rightarrow> if 1 \<le> n \<and> n \<le> 3 then Inr (Some n) else Inr None)
      else Inr None)"

function domain_loop :: "world \<Rightarrow> (py_exn + string) \<times> world" where
  "domain_loop w =
     (case input_line (nl @ ''Enter choice (1-3 or domain): '') w of
        (Inl x, w1) \<Rightarrow> (Inl x, w1)
      | (Inr l, w1) \<Rightarrow>
          let choice = strip l
          in (case menu_number choice of
                Inl x \<Rightarrow> (Inl x, w1)
              | Inr (Some n) \<Rightarrow> (Inr (domains ! nat (n - 1)), w1)
              | Inr None \<Rightarrow>
                  if choice \<noteq> [] \<and> CHR ''.'' \<in> set choice \<and>
                     \<not> (startswith choice ''http://'' \<or> startswith choice ''https://'')
                  then (Inr choice, w1)
                  else if choice = [] then (Inr ''google.com'', w1)
                  else domain_loop
                         (print ''Invalid! Use 1-3 or valid domain (e.g., example.com)'' w1)))"
  by pat_completeness auto
termination
  by (relation "measure (\<lambda>w. length (stdin w))")
     (auto dest!: input_line_shorter [OF sym])

declare domain_loop.simps [simp del]

definition get_test_domain :: "world \<Rightarrow> (py_exn + string) \<times> world" where
  "get_test_domain w =
     domain_loop
       (print ''  or type your own domain''
         (foldl (\<lambda>w' (i, domain). print (''  '' @ str_nat i @ ''. '' @ domain) w')
            (print (nl @ ''Test domains (enter number 1-3 or type domain):'') w)
            (zip [1 ..< Suc (length domains)] domains)))"

subsection \<open>\<^verbatim>\<open>check_dns_servers\<close>\<close>

text \<open>
  The tasks of the pool. Each task is one call of \<^verbatim>\<open>test_single_server\<close>; the tasks
  share nothing but the ledger, which they reach through \<^verbatim>\<open>real_time_save\<close> under the
  lock, so a run of the pool is the tasks one after another in some order. A future
  holds what its task returned or the exception that left it.
\<close>

fun run_tasks ::
  "env \<Rightarrow> string \<Rightarrow> int \<Rightarrow> string list \<Rightarrow> world
     \<Rightarrow> (string \<times> (py_exn + probe_result)) list \<times> world" where
  "run_tasks e domain tmo [] w = ([], w)"
| "run_tasks e domain tmo (server # rest) w =
     (case test_single_server e server domain tmo w of (r, w1) \<Rightarrow>
        (case run_tasks e domain tmo rest w1 of (rs, w2) \<Rightarrow> ((server, r) # rs, w2)))"

text \<open>
  The body of \<^verbatim>\<open>for future in as_completed(future_to_server)\<close>: the state is
  \<^verbatim>\<open>working\<close>, \<^verbatim>\<open>failed\<close> and the terminal (the progress bar, on the error stream, is
  left out). A future is paired with its server, as in \<^verbatim>\<open>future_to_server\<close>.
\<close>

fun collect ::
  "(string \<times> (py_exn + probe_result)) list
     \<Rightarrow> (string \<times> rat option) list \<times> string list \<times> world
     \<Rightarrow> (string \<times> rat option) list \<times> string list \<times> world" where
  "collect [] st = st"
| "collect ((server, fut) # futs) (working, failed, w) =
     collect futs
       (case fut of
          Inr (success, result, message) \<Rightarrow>
            if success
            then (working @ [result], failed,
                  w\<lparr>stdout := stdout w @ [CheckMark ('' '' @ message)]\<rparr>)
            else (working, failed @ [fst result],
                  w\<lparr>stdout := stdout w @ [CrossMark ('' '' @ message)]\<rparr>)
        | Inl x \<Rightarrow>
            (working, failed @ [server],
             print (''CRASH '' @ server @ '': '' @ take 30 (exn_str x)) w))"

text \<open>\<^verbatim>\<open>(len(working) / len(servers) * 100) if servers else 0\<close>\<close>

definition truediv :: "env \<Rightarrow> nat \<Rightarrow> nat \<Rightarrow> py_exn + rat" where
  "truediv e a b = (if b = 0 then Inl ZeroDivisionError else Inr (fl e (of_nat a / of_nat b)))"

definition success_rate :: "env \<Rightarrow> 'a list \<Rightarrow> 'b list \<Rightarrow> py_exn + rat" where
  "success_rate e working servers =
     (if servers \<noteq> []
      then (case truediv e (length working) (length servers) of
              Inl x \<Rightarrow> Inl x
            | Inr q \<Rightarrow> Inr (fl e (q * 100)))
      else Inr 0)"

text \<open>
  The block \<^verbatim>\<open>if working: ...\<close> that prints the fastest servers, for a list whose
  response times are all measured. \<^verbatim>\<open>sorted\<close> is stable, as \<open>sort_key\<close> is.
\<close>

definition top5_entry :: "nat \<times> string \<times> rat \<Rightarrow> out" where
  "top5_entry x = (case x of (i, server_ip, response_time) \<Rightarrow>
     Print (''  '' @ str_nat i @ ''. '' @ ljust 15 server_ip @ '' '' @
            fmt_f 0 response_time @ ''ms''))"

definition top5_lines :: "(string \<times> rat) list \<Rightarrow> out list" where
  "top5_lines working =
     (if working = [] then []
      else [Print ''TOP 5 FASTEST SERVERS:''] @
           map top5_entry (zip [1 ..< 6] (take 5 (sort_key snd working))) @
           (if length working > 5
            then [Print (''  ... '' @ str_nat (length working - 5) @ '' more servers'')]
            else []) @
           [Print []])"

text \<open>
  The same block on the list as the loop built it. An entry without a response time
  makes the comparison of the sort, or else the format of the entry, raise
  \<^verbatim>\<open>TypeError\<close> after the heading is printed.
\<close>

definition measured :: "(string \<times> rat option) list \<Rightarrow> (string \<times> rat) list option" where
  "measured working = those (map (\<lambda>(ip, rt). map_option (Pair ip) rt) working)"

definition top5_report :: "(string \<times> rat option) list \<Rightarrow> world \<Rightarrow> py_exn option \<times> world" where
  "top5_report working w =
     (case measured working of
        Some ws \<Rightarrow> (None, w\<lparr>stdout := stdout w @ top5_lines ws\<rparr>)
      | None \<Rightarrow> (Some (TypeError ''response time is None''), print ''TOP 5 FASTEST SERVERS:'' w))"

text \<open>
  The block \<^verbatim>\<open>with ThreadPoolExecutor(max_workers=workers) as executor: ...\<close>: every
  server is submitted, the pool runs the tasks, and the loop takes the futures as they
  complete.
\<close>

definition dispatch ::
  "env \<Rightarrow> string list \<Rightarrow> int \<Rightarrow> int \<Rightarrow> string \<Rightarrow> world
     \<Rightarrow> (string \<times> rat option) list \<times> string list \<times> world" where
  "dispatch e servers workers tmo domain w =
     (case run_tasks e domain tmo (run_order e (nat workers) servers) w of (futures, w1) \<Rightarrow>
        collect (completion e (nat workers) futures) ([], [], w1))"

text \<open>The lines printed between \<^verbatim>\<open>write_header\<close> and the pool.\<close>

definition announce :: "string list \<Rightarrow> int \<Rightarrow> int \<Rightarrow> string \<Rightarrow> world \<Rightarrow> world" where
  "announce servers workers tmo domain w =
     print ''Testing servers...''
      (print (replicate 70 CHR ''-'')
      (print ''Working servers will be SAVED IMMEDIATELY as found!''
      (print (''Config: Workers='' @ str_int workers @ '' | Timeout='' @ str_int tmo @
              ''s | Domain='' @ domain)
      (print (nl @ ''Starting test of '' @ str_nat (length servers) @ '' DNS servers'') w))))"

text \<open>The summary, from \<^verbatim>\<open>DNS SERVER TEST RESULTS\<close> to \<^verbatim>\<open>return working\<close>.\<close>

definition report ::
  "env \<Rightarrow> string list \<Rightarrow> string \<Rightarrow> (string \<times> rat option) list \<Rightarrow> string list \<Rightarrow> world
     \<Rightarrow> (py_exn + (string \<times> rat option) list) \<times> world" where
  "report e servers domain working failed w =
     (let w1 = print (replicate 60 CHR ''='')
                (print ''DNS SERVER TEST RESULTS''
                (print (nl @ replicate 60 CHR ''='') w))
      in case success_rate e working servers of
           Inl x \<Rightarrow> (Inl x, w1)
         | Inr rate \<Rightarrow>
             let w2 = print []
                       (print (''Test domain:          '' @ domain)
                       (print (''Test duration:        '' @ fmt_f 1 (run_seconds e) @
                               '' seconds'')
                       (print (''Failed servers:       '' @ str_nat (length failed))
                       (print (''Working servers:      '' @ str_nat (length working) @
                               '' ('' @ fmt_f 1 rate @ ''%)'')
                       (print (''Total servers tested: '' @ str_nat (length servers)) w1)))))
             in (case top5_report working w2 of
                   (Some x, w3) \<Rightarrow> (Inl x, w3)
                 | (None, w3) \<Rightarrow>
                     (Inr working,
                      print (replicate 60 CHR ''='')
                       (print (''Results saved: working_dns.txt ('' @
                               str_nat (length working) @ '' servers)'') w3))))"

text \<open>The part of \<^verbatim>\<open>check_dns_servers\<close> after the configuration is known.\<close>

definition run_tests ::
  "env \<Rightarrow> string list \<Rightarrow> int \<Rightarrow> int \<Rightarrow> string \<Rightarrow> world
     \<Rightarrow> (py_exn + (string \<times> rat option) list) \<times> world" where
  "run_tests e servers workers tmo domain w =
     (case dispatch e servers workers tmo domain
             (announce servers workers tmo domain (write_header e domain w)) of
        (working, failed, w1) \<Rightarrow> report e servers domain working failed w1)"

text \<open>
  \<^verbatim>\<open>check_dns_servers\<close>, from the banner to the returned list. \<open>filepath\<close> is the path of
  \<^verbatim>\<open>dns_servers.txt\<close> beside the script, as the messages show it.
\<close>

definition check_dns_servers ::
  "env \<Rightarrow> string \<Rightarrow> world \<Rightarrow> (py_exn + (string \<times> rat option) list) \<times> world" where
  "check_dns_servers e filepath w =
     (case load_servers filepath (recursion_limit e)
             (print (replicate 70 CHR ''='') (print ''Azadi DNS Tester'' w)) of
        (Inl x, w1) \<Rightarrow> (Inl x, w1)
      | (Inr servers, w1) \<Rightarrow>
          if servers = [] then (Inr [], print ''No servers to test. Exiting.'' w1)
          else (case get_worker_count w1 of
                  (Inl x, w2) \<Rightarrow> (Inl x, w2)
                | (Inr workers, w2) \<Rightarrow>
                    (case get_timeout w2 of
                       (Inl x, w3) \<Rightarrow> (Inl x, w3)
                     | (Inr tmo, w3) \<Rightarrow>
                         (case get_test_domain w3 of
                            (Inl x, w4) \<Rightarrow> (Inl x, w4)
                          | (Inr domain, w4) \<Rightarrow> run_tests e servers workers tmo domain w4))))"

subsection \<open>A test bench\<close>

text \<open>
  An environment and a world to run the model on. The network answers the query of
  \<^verbatim>\<open>1.1.1.1\<close> with one record after 20 ms, as a mocked resolver of a test would; the other
  servers show the remaining outcomes. The library refuses \<^verbatim>\<open>1.1.1\<close> as a nameserver in
  \<open>strict_lab\<close>, as a resolver library that validates the assigned list does, and takes
  everything in \<open>lab\<close>. The pool runs the tasks in the order of submission and completes
  them in the reverse order.
\<close>

definition lab :: env where
  "lab = \<lparr>now = ''2024-05-01 12:00:00'',
          nameserver_error = (\<lambda>server. None),
          resolve = (\<lambda>r domain rdtype.
            if nameservers r = [''1.1.1.1''] then Answers ''93.184.216.34'' []
            else if nameservers r = [''8.8.8.8''] then Answers ''93.184.216.34'' [''93.184.216.35'']
            else if nameservers r = [''9.9.9.9''] then NXDOMAIN
            else if nameservers r = [''4.2.2.1''] then NoAnswer
            else if nameservers r = [''4.2.2.2'']
              then DNSException ''All nameservers failed to answer the query''
            else if nameservers r = [''1.0.0.1'']
              then OtherException ''[Errno 101] Network is unreachable''
            else Timeout),
          elapsed_ms = (\<lambda>server. if server = ''1.1.1.1'' then 20
                                 else if server = ''8.8.8.8'' then 35 else 3000),
          run_order = (\<lambda>workers servers. servers),
          completion = (\<lambda>workers futures. rev futures),
          fl = (\<lambda>x. x),
          run_seconds = 3,
          recursion_limit = 1000\<rparr>"

definition strict_lab :: env where
  "strict_lab = lab\<lparr>nameserver_error := (\<lambda>server.
     if server = ''1.1.1''
     then Some ''nameserver 1.1.1 is not a dns.nameserver.Nameserver instance or text form, IP address, nor a valid https URL''
     else None)\<rparr>"

definition blank :: world where
  "blank = \<lparr>ledger = None, servers_file = None, stdin = [], stdout = [], queries = []\<rparr>"

subsection \<open>The dispatch loop\<close>

text \<open>
  What the future of a server holds does not depend on the state of the files and the
  terminal: \<open>outcome\<close> is the result of the probe, and \<open>succeeded\<close> reads its flag.
\<close>

definition outcome :: "env \<Rightarrow> string \<Rightarrow> int \<Rightarrow> string \<Rightarrow> py_exn + probe_result" where
  "outcome e domain tmo server = fst (test_single_server e server domain tmo blank)"

definition succeeded :: "py_exn + probe_result \<Rightarrow> bool" where
  "succeeded r = (case r of Inl x \<Rightarrow> False | Inr (success, result, message) \<Rightarrow> success)"

text \<open>Every future that returned carries the address of its server.\<close>

definition addressed :: "(string \<times> (py_exn + probe_result)) list \<Rightarrow> bool" where
  "addressed futs =
     (\<forall>(s, r) \<in> set futs. \<forall>success ip rt message. r = Inr (success, (ip, rt), message) \<longrightarrow> ip = s)"

text \<open>The line that \<^verbatim>\<open>test_single_server\<close> hands to \<^verbatim>\<open>real_time_save\<close>, as the file
  holds it.\<close>

definition ledger_line :: "env \<Rightarrow> string \<Rightarrow> string" where
  "ledger_line e server = server @ '' ('' @ fmt_f 0 (elapsed_ms e server) @ ''ms)'' @ nl"

section \<open>Properties\<close>

subsection \<open>Evaluation on literals\<close>

lemma str_nat_small: "n < 10 \<Longrightarrow> str_nat n = [''0123456789'' ! n]"
  by (subst str_nat.simps) simp

lemma str_nat_big:
  "10 \<le> n \<Longrightarrow> str_nat n = str_nat (n div 10) @ [''0123456789'' ! (n mod 10)]"
  by (subst str_nat.simps) simp

lemmas fmt_eval = fmt_f_def round_half_even_def str_int_def str_nat_small str_nat_big Let_def

lemmas aton_eval = inet_aton_def aton_parts.simps strtoul_def startswith_def
  is_ascii_digit_def is_hex_def is_oct_def num_val_def digit_val_def is_c_space_def

lemma aton_1111: "inet_aton ''1.1.1.1'' = Inr ()"
  by (simp add: aton_eval)

lemma aton_8888: "inet_aton ''8.8.8.8'' = Inr ()"
  by (simp add: aton_eval)

lemma aton_9999: "inet_aton ''9.9.9.9'' = Inr ()"
  by (simp add: aton_eval)

lemma aton_4221: "inet_aton ''4.2.2.1'' = Inr ()"
  by (simp add: aton_eval)

lemma aton_4222: "inet_aton ''4.2.2.2'' = Inr ()"
  by (simp add: aton_eval)

lemma aton_1001: "inet_aton ''1.0.0.1'' = Inr ()"
  by (simp add: aton_eval)

lemma aton_doc: "inet_aton ''203.0.113.5'' = Inr ()"
  by (simp add: aton_eval)

lemma aton_short: "inet_aton ''1.1.1'' = Inr ()"
  by (simp add: aton_eval)

lemma aton_999:
  "inet_aton ''999.1.1.1'' = Inl (OSError ''illegal IP address string passed to inet_aton'')"
  by (simp add: aton_eval)

lemma aton_words:
  "inet_aton ''not.an.ip'' = Inl (OSError ''illegal IP address string passed to inet_aton'')"
  by (simp add: aton_eval)

subsection \<open>The probe of one server\<close>

text \<open>
  C2, as the code has it. The validity check is \<^verbatim>\<open>socket.inet_aton\<close>: for every text
  that it rejects with \<^verbatim>\<open>OSError\<close>, \<^verbatim>\<open>test_single_server\<close> returns success
  \<open>False\<close>, the server with no response time, and the detail \<^verbatim>\<open>INVALID IP\<close>, and
  leaves the world as it was: no query is sent and nothing is written.
\<close>

theorem invalid_address_rejected:
  assumes "inet_aton server = Inl (OSError m)"
  shows "test_single_server e server domain tmo w =
           (Inr (False, (server, None), server @ '' INVALID IP''), w)"
  using assms by (simp add: test_single_server_def)

theorem invalid_address_rejected_witness:
  "inet_aton ''999.1.1.1'' = Inl (OSError ''illegal IP address string passed to inet_aton'') \<and>
   test_single_server lab ''999.1.1.1'' ''example.com'' 3 blank =
     (Inr (False, (''999.1.1.1'', None), ''999.1.1.1 INVALID IP''), blank)"
  using invalid_address_rejected [OF aton_999, of lab "''example.com''" 3 blank] aton_999
  by simp

text \<open>
  The claim as it is written fails at \<^verbatim>\<open>1.1.1\<close>, which is not a dotted quad:
  \<^verbatim>\<open>inet_aton\<close> reads it as \<^verbatim>\<open>1.1.0.1\<close>, so the probe goes on. Where the resolver
  library takes the text, the query is sent and the outcome is the one of the query;
  where the library refuses it, its \<^verbatim>\<open>ValueError\<close> leaves the function.
\<close>

theorem short_address_counterexample:
  "test_single_server lab ''1.1.1'' ''example.com'' 3 blank =
     (Inr (False, (''1.1.1'', Some 3000), ''1.1.1 TIMEOUT (3s, 3000ms)''),
      blank\<lparr>queries := [(\<lparr>configure = False, nameservers = [''1.1.1''], timeout = 3,
                              lifetime = 3\<rparr>, ''example.com'', ''A'')]\<rparr>) \<and>
   fst (test_single_server strict_lab ''1.1.1'' ''example.com'' 3 blank) =
     Inl (ValueError ''nameserver 1.1.1 is not a dns.nameserver.Nameserver instance or text form, IP address, nor a valid https URL'')"
  by (simp add: test_single_server_def aton_short lab_def strict_lab_def blank_def fmt_eval)

text \<open>
  C3. Once the address has passed \<^verbatim>\<open>inet_aton\<close> and the resolver has taken it, the
  outcome of the query decides the result by the table of the handlers: an answer gives
  success, with the first record and the number of records in the detail;
  \<^verbatim>\<open>NXDOMAIN\<close>, \<^verbatim>\<open>Timeout\<close> and \<^verbatim>\<open>NoAnswer\<close> give their own failures; any other
  exception of the resolver library gives \<^verbatim>\<open>DNS ERROR\<close> and any other exception
  \<^verbatim>\<open>ERROR\<close>, each with at most the first 20 characters of its text. In every case the
  result carries the server and the measured response time.
\<close>

theorem outcome_table:
  assumes "inet_aton server = Inr ()" and "nameserver_error e server = None"
  shows
    "(\<forall>a others.
        resolve e \<lparr>configure = False, nameservers = [server], timeout = tmo, lifetime = tmo\<rparr>
          domain ''A'' = Answers a others \<longrightarrow>
        fst (test_single_server e server domain tmo w) =
          Inr (True, (server, Some (elapsed_ms e server)),
               server @ '' OK '' @ fmt_f 0 (elapsed_ms e server) @ ''ms ('' @ a @ '') - '' @
               str_nat (Suc (length others)) @ '' records'')) \<and>
     (resolve e \<lparr>configure = False, nameservers = [server], timeout = tmo, lifetime = tmo\<rparr>
          domain ''A'' = NXDOMAIN \<longrightarrow>
        fst (test_single_server e server domain tmo w) =
          Inr (False, (server, Some (elapsed_ms e server)),
               server @ '' NXDOMAIN ('' @ fmt_f 0 (elapsed_ms e server) @ ''ms)'')) \<and>
     (resolve e \<lparr>configure = False, nameservers = [server], timeout = tmo, lifetime = tmo\<rparr>
          domain ''A'' = Timeout \<longrightarrow>
        fst (test_single_server e server domain tmo w) =
          Inr (False, (server, Some (elapsed_ms e server)),
               server @ '' TIMEOUT ('' @ str_int tmo @ ''s, '' @
               fmt_f 0 (elapsed_ms e server) @ ''ms)'')) \<and>
     (resolve e \<lparr>configure = False, nameservers = [server], timeout = tmo, lifetime = tmo\<rparr>
          domain ''A'' = NoAnswer \<longrightarrow>
        fst (test_single_server e server domain tmo w) =
          Inr (False, (server, Some (elapsed_ms e server)),
               server @ '' NO ANSWER ('' @ fmt_f 0 (elapsed_ms e server) @ ''ms)'')) \<and>
     (\<forall>m.
        resolve e \<lparr>configure = False, nameservers = [server], timeout = tmo, lifetime = tmo\<rparr>
          domain ''A'' = DNSException m \<longrightarrow>
        fst (test_single_server e server domain tmo w) =
          Inr (False, (server, Some (elapsed_ms e server)),
               server @ '' DNS ERROR ('' @ take 20 m @ '', '' @
               fmt_f 0 (elapsed_ms e server) @ ''ms)'') \<and>
        length (take 20 m) \<le> 20) \<and>
     (\<forall>m.
        resolve e \<lparr>configure = False, nameservers = [server], timeout = tmo, lifetime = tmo\<rparr>
          domain ''A'' = OtherException m \<longrightarrow>
        fst (test_single_server e server domain tmo w) =
          Inr (False, (server, Some (elapsed_ms e server)),
               server @ '' ERROR ('' @ take 20 m @ '', '' @
               fmt_f 0 (elapsed_ms e server) @ ''ms)'') \<and>
        length (take 20 m) \<le> 20) \<and>
     (\<exists>success message.
        fst (test_single_server e server domain tmo w) =
          Inr (success, (server, Some (elapsed_ms e server)), message))"
  using assms
  by (cases "resolve e \<lparr>configure = False, nameservers = [server], timeout = tmo,
                          lifetime = tmo\<rparr> domain ''A''")
     (auto simp: test_single_server_def Let_def)

theorem outcome_table_witness:
  "fst (test_single_server lab ''1.1.1.1'' ''example.com'' 3 blank) =
     Inr (True, (''1.1.1.1'', Some 20), ''1.1.1.1 OK 20ms (93.184.216.34) - 1 records'') \<and>
   fst (test_single_server lab ''8.8.8.8'' ''example.com'' 3 blank) =
     Inr (True, (''8.8.8.8'', Some 35), ''8.8.8.8 OK 35ms (93.184.216.34) - 2 records'') \<and>
   fst (test_single_server lab ''9.9.9.9'' ''example.com'' 3 blank) =
     Inr (False, (''9.9.9.9'', Some 3000), ''9.9.9.9 NXDOMAIN (3000ms)'') \<and>
   fst (test_single_server lab ''203.0.113.5'' ''example.com'' 3 blank) =
     Inr (False, (''203.0.113.5'', Some 3000), ''203.0.113.5 TIMEOUT (3s, 3000ms)'') \<and>
   fst (test_single_server lab ''4.2.2.1'' ''example.com'' 3 blank) =
     Inr (False, (''4.2.2.1'', Some 3000), ''4.2.2.1 NO ANSWER (3000ms)'') \<and>
   fst (test_single_server lab ''4.2.2.2'' ''example.com'' 3 blank) =
     Inr (False, (''4.2.2.2'', Some 3000), ''4.2.2.2 DNS ERROR (All nameservers fail, 3000ms)'') \<and>
   fst (test_single_server lab ''1.0.0.1'' ''example.com'' 3 blank) =
     Inr (False, (''1.0.0.1'', Some 3000), ''1.0.0.1 ERROR ([Errno 101] Network , 3000ms)'')"
proof -
  have ns: "nameserver_error lab s = None" for s
    by (simp add: lab_def)
  note t = outcome_table [OF _ ns, of _ 3 "''example.com''" blank]
  show ?thesis
    using t [OF aton_1111] t [OF aton_8888] t [OF aton_9999] t [OF aton_doc]
      t [OF aton_4221] t [OF aton_4222] t [OF aton_1001]
    by (simp add: lab_def fmt_eval)
qed

text \<open>
  C9. A call of \<^verbatim>\<open>test_single_server\<close> sends at most one query, and sends it exactly
  when the address has passed \<^verbatim>\<open>inet_aton\<close> and the resolver has taken it. The
  resolver of that query was built with \<^verbatim>\<open>configure=False\<close>, has the server as its only
  nameserver, and has the given timeout both as \<^verbatim>\<open>timeout\<close> and as \<^verbatim>\<open>lifetime\<close>.
\<close>

theorem resolver_configuration:
  "queries (snd (test_single_server e server domain tmo w)) =
     queries w @
     (if inet_aton server = Inr () \<and> nameserver_error e server = None
      then [(\<lparr>configure = False, nameservers = [server], timeout = tmo, lifetime = tmo\<rparr>,
             domain, ''A'')]
      else [])"
proof (cases "inet_aton server")
  case (Inl x)
  then show ?thesis
    by (cases x) (simp_all add: test_single_server_def)
next
  case (Inr u)
  show ?thesis
  proof (cases "nameserver_error e server")
    case None
    with Inr show ?thesis
      by (cases "resolve e \<lparr>configure = False, nameservers = [server], timeout = tmo,
                              lifetime = tmo\<rparr> domain ''A''")
         (simp_all add: test_single_server_def Let_def real_time_save_def)
  next
    case (Some m)
    with Inr show ?thesis
      by (simp add: test_single_server_def)
  qed
qed

theorem resolver_configuration_witness:
  "queries (snd (test_single_server lab ''203.0.113.5'' ''example.com'' 3 blank)) =
     [(\<lparr>configure = False, nameservers = [''203.0.113.5''], timeout = 3, lifetime = 3\<rparr>,
       ''example.com'', ''A'')] \<and>
   queries (snd (test_single_server lab ''not.an.ip'' ''example.com'' 3 blank)) = []"
  using resolver_configuration [of lab "''203.0.113.5''" "''example.com''" 3 blank]
    resolver_configuration [of lab "''not.an.ip''" "''example.com''" 3 blank]
  by (simp add: aton_doc aton_words lab_def blank_def)

lemma probe_result_any_world:
  "fst (test_single_server e server domain tmo w) = outcome e domain tmo server"
  by (simp add: outcome_def test_single_server_def Let_def
      split: sum.splits py_exn.splits option.splits query_result.splits)

lemma outcome_address:
  "outcome e domain tmo server = Inr (success, (ip, rt), message) \<Longrightarrow> ip = server"
  by (auto simp: outcome_def test_single_server_def Let_def
      split: sum.splits py_exn.splits option.splits query_result.splits)

lemma run_tasks_futures:
  "fst (run_tasks e domain tmo order w) = map (\<lambda>s. (s, outcome e domain tmo s)) order"
proof (induction order arbitrary: w)
  case Nil
  show ?case by simp
next
  case (Cons s order)
  obtain r w1 where p: "test_single_server e s domain tmo w = (r, w1)"
    by (cases "test_single_server e s domain tmo w")
  then have r: "r = outcome e domain tmo s"
    using probe_result_any_world [of e s domain tmo w] by simp
  obtain rs w2 where t: "run_tasks e domain tmo order w1 = (rs, w2)"
    by (cases "run_tasks e domain tmo order w1")
  with Cons.IH [of w1] have "rs = map (\<lambda>s. (s, outcome e domain tmo s)) order"
    by simp
  with p r t show ?case by simp
qed

lemma collect_lists:
  assumes "addressed futs" and "collect futs (working, failed, w) = (working', failed', w')"
  shows "map fst working' = map fst working @ map fst (filter (\<lambda>f. succeeded (snd f)) futs) \<and>
         failed' = failed @ map fst (filter (\<lambda>f. \<not> succeeded (snd f)) futs)"
  using assms
proof (induction futs arbitrary: working failed w)
  case Nil
  then show ?case by simp
next
  case (Cons f futs)
  obtain s r where f: "f = (s, r)" by (cases f)
  from Cons.prems(1) have rest: "addressed futs"
    by (simp add: addressed_def)
  show ?case
  proof (cases r)
    case (Inl x)
    with f Cons.prems(2) have
      "collect futs (working, failed @ [s],
         print (''CRASH '' @ s @ '': '' @ take 30 (exn_str x)) w) = (working', failed', w')"
      by simp
    from Cons.IH [OF rest this] f Inl show ?thesis
      by (simp add: succeeded_def)
  next
    case (Inr p)
    obtain success ip rt message where p: "p = (success, (ip, rt), message)"
      by (cases p) auto
    with Cons.prems(1) f Inr have ip: "ip = s"
      by (simp add: addressed_def)
    show ?thesis
    proof (cases success)
      case True
      with f Inr p Cons.prems(2) have
        "collect futs (working @ [(ip, rt)], failed,
           w\<lparr>stdout := stdout w @ [CheckMark ('' '' @ message)]\<rparr>) = (working', failed', w')"
        by simp
      from Cons.IH [OF rest this] f Inr p ip True show ?thesis
        by (simp add: succeeded_def)
    next
      case False
      with f Inr p Cons.prems(2) have
        "collect futs (working, failed @ [ip],
           w\<lparr>stdout := stdout w @ [CrossMark ('' '' @ message)]\<rparr>) = (working', failed', w')"
        by simp
      from Cons.IH [OF rest this] f Inr p ip False show ?thesis
        by (simp add: succeeded_def)
    qed
  qed
qed

lemma dispatch_lists:
  assumes order: "mset (run_order e (nat workers) servers) = mset servers"
    and comp: "\<And>futs. mset (completion e (nat workers) futs) = mset futs"
    and d: "dispatch e servers workers tmo domain w = (working, failed, w')"
  shows "\<exists>done. mset done = mset servers \<and>
           map fst working = filter (\<lambda>s. succeeded (outcome e domain tmo s)) done \<and>
           failed = filter (\<lambda>s. \<not> succeeded (outcome e domain tmo s)) done"
proof -
  define order where "order = run_order e (nat workers) servers"
  define futs where "futs = map (\<lambda>s. (s, outcome e domain tmo s)) order"
  define cs where "cs = completion e (nat workers) futs"
  obtain w1 where rt: "run_tasks e domain tmo order w = (futs, w1)"
    using run_tasks_futures [of e domain tmo order w]
    by (cases "run_tasks e domain tmo order w") (simp add: futs_def)
  with d have c: "collect cs ([], [], w1) = (working, failed, w')"
    by (simp add: dispatch_def order_def cs_def)
  have mcs: "mset cs = mset futs"
    by (simp add: cs_def comp)
  then have "set cs = set futs"
    by (rule mset_eq_setD)
  then have shape: "\<forall>f \<in> set cs. snd f = outcome e domain tmo (fst f)"
    by (auto simp: futs_def)
  have "addressed cs"
    unfolding addressed_def
  proof (intro ballI, clarify)
    fix s success ip rt message
    assume "(s, Inr (success, (ip, rt), message)) \<in> set cs"
    with shape have "outcome e domain tmo s = Inr (success, (ip, rt), message)"
      by force
    then show "ip = s" by (rule outcome_address)
  qed
  from collect_lists [OF this c] have
    wk: "map fst working = map fst (filter (\<lambda>f. succeeded (snd f)) cs)" and
    fl: "failed = map fst (filter (\<lambda>f. \<not> succeeded (snd f)) cs)"
    by simp_all
  have f1: "map fst (filter (\<lambda>f. P (snd f)) cs) =
            filter (\<lambda>s. P (outcome e domain tmo s)) (map fst cs)" for P
    using shape by (induction cs) auto
  have "mset (map fst cs) = mset (map fst futs)"
    using mcs by (metis mset_map)
  also have "map fst futs = order"
    by (simp add: futs_def comp_def)
  finally have "mset (map fst cs) = mset servers"
    using order by (simp add: order_def)
  with wk fl f1 [of succeeded] f1 [of "\<lambda>r. \<not> succeeded r"] show ?thesis
    by (intro exI [of _ "map fst cs"]) simp
qed

text \<open>
  C1. Whatever the number of workers and whatever the order in which the pool runs and
  completes the tasks, the loop puts every candidate in exactly one of the two lists:
  counted with multiplicity, the addresses of \<^verbatim>\<open>working\<close> and the entries of
  \<^verbatim>\<open>failed\<close> together are the candidates, so for candidates without repetition no
  address stands twice. Where a candidate goes depends on its own probe alone: into
  \<^verbatim>\<open>working\<close> when the probe returned success, into \<^verbatim>\<open>failed\<close> otherwise; in
  particular a candidate whose probe was left by an exception is in \<^verbatim>\<open>failed\<close>, and the
  loop goes on.
\<close>

theorem one_outcome_per_candidate:
  assumes "mset (run_order e (nat workers) servers) = mset servers"
    and "\<And>futs. mset (completion e (nat workers) futs) = mset futs"
    and "dispatch e servers workers tmo domain w = (working, failed, w')"
  shows "mset (map fst working) + mset failed = mset servers \<and>
         set (map fst working) = {s \<in> set servers. succeeded (outcome e domain tmo s)} \<and>
         set failed = {s \<in> set servers. \<not> succeeded (outcome e domain tmo s)} \<and>
         (distinct servers \<longrightarrow> distinct (map fst working @ failed)) \<and>
         (\<forall>s \<in> set servers. \<forall>x. outcome e domain tmo s = Inl x \<longrightarrow> s \<in> set failed)"
proof -
  from dispatch_lists [OF assms] obtain finished where
    m: "mset finished = mset servers" and
    wk: "map fst working = filter (\<lambda>s. succeeded (outcome e domain tmo s)) finished" and
    fl: "failed = filter (\<lambda>s. \<not> succeeded (outcome e domain tmo s)) finished"
    by blast
  have s: "set finished = set servers"
    using m by (rule mset_eq_setD)
  have "mset (map fst working) + mset failed = mset finished"
    by (simp add: wk fl)
  with m have 1: "mset (map fst working) + mset failed = mset servers"
    by simp
  have 2: "set (map fst working) = {s \<in> set servers. succeeded (outcome e domain tmo s)}"
    using s by (auto simp: wk)
  have 3: "set failed = {s \<in> set servers. \<not> succeeded (outcome e domain tmo s)}"
    using s by (auto simp: fl)
  have 4: "distinct (map fst working @ failed)" if "distinct servers"
  proof -
    from that m have "distinct finished"
      by (metis mset_eq_imp_distinct_iff)
    then show ?thesis
      by (auto simp: wk fl)
  qed
  have 5: "s \<in> set failed" if "s \<in> set servers" and "outcome e domain tmo s = Inl x" for s x
    using that 3 by (simp add: succeeded_def)
  from 1 2 3 4 5 show ?thesis by blast
qed

theorem one_outcome_per_candidate_witness:
  "dispatch strict_lab [''1.1.1.1'', ''not.an.ip'', ''203.0.113.5'', ''1.1.1''] 100 3
     ''example.com'' blank =
     ([(''1.1.1.1'', Some 20)], [''1.1.1'', ''203.0.113.5'', ''not.an.ip''],
      \<lparr>ledger = Some (''1.1.1.1 (20ms)'' @ nl), servers_file = None, stdin = [],
         stdout = [Print ''CRASH 1.1.1: nameserver 1.1.1 is not a dns.'',
                   CrossMark '' 203.0.113.5 TIMEOUT (3s, 3000ms)'',
                   CrossMark '' not.an.ip INVALID IP'',
                   CheckMark '' 1.1.1.1 OK 20ms (93.184.216.34) - 1 records''],
         queries = [(\<lparr>configure = False, nameservers = [''1.1.1.1''], timeout = 3,
                       lifetime = 3\<rparr>, ''example.com'', ''A''),
                    (\<lparr>configure = False, nameservers = [''203.0.113.5''], timeout = 3,
                       lifetime = 3\<rparr>, ''example.com'', ''A'')]\<rparr>) \<and>
   mset (map fst [(''1.1.1.1'', Some (20 :: rat))]) + mset [''1.1.1'', ''203.0.113.5'', ''not.an.ip''] =
     mset [''1.1.1.1'', ''not.an.ip'', ''203.0.113.5'', ''1.1.1''] \<and>
   distinct (map fst [(''1.1.1.1'', Some (20 :: rat))] @ [''1.1.1'', ''203.0.113.5'', ''not.an.ip''])"
proof -
  have d: "dispatch strict_lab [''1.1.1.1'', ''not.an.ip'', ''203.0.113.5'', ''1.1.1''] 100 3
     ''example.com'' blank =
     ([(''1.1.1.1'', Some 20)], [''1.1.1'', ''203.0.113.5'', ''not.an.ip''],
      \<lparr>ledger = Some (''1.1.1.1 (20ms)'' @ nl), servers_file = None, stdin = [],
         stdout = [Print ''CRASH 1.1.1: nameserver 1.1.1 is not a dns.'',
                   CrossMark '' 203.0.113.5 TIMEOUT (3s, 3000ms)'',
                   CrossMark '' not.an.ip INVALID IP'',
                   CheckMark '' 1.1.1.1 OK 20ms (93.184.216.34) - 1 records''],
         queries = [(\<lparr>configure = False, nameservers = [''1.1.1.1''], timeout = 3,
                       lifetime = 3\<rparr>, ''example.com'', ''A''),
                    (\<lparr>configure = False, nameservers = [''203.0.113.5''], timeout = 3,
                       lifetime = 3\<rparr>, ''example.com'', ''A'')]\<rparr>)"
    by (simp add: dispatch_def test_single_server_def strict_lab_def lab_def blank_def
        real_time_save_def print_def aton_1111 aton_words aton_doc aton_short fmt_eval)
  have o: "mset (run_order strict_lab (nat 100) [''1.1.1.1'', ''not.an.ip'', ''203.0.113.5'', ''1.1.1'']) =
           mset [''1.1.1.1'', ''not.an.ip'', ''203.0.113.5'', ''1.1.1'']"
    by (simp add: strict_lab_def lab_def)
  have c: "mset (completion strict_lab (nat 100) futs) = mset futs" for futs
    by (simp add: strict_lab_def lab_def)
  from one_outcome_per_candidate [OF o c d, THEN conjunct1] d show ?thesis
    by simp
qed

subsection \<open>The report\<close>

text \<open>
  C6. For an empty list the block prints nothing. Otherwise the working servers, put
  in ascending order of response time with servers of equal response time left in the
  order in which they came, are split into the first five (or all, when there are at
  most five) and the rest: the block prints the heading, one numbered line for each
  server of the first part, in that order, then the line that counts the rest exactly
  when there are more than five servers, and an empty line.
\<close>

theorem top5_fastest:
  fixes working :: "(string \<times> rat) list"
  shows "top5_lines [] = [] \<and>
    (working \<noteq> [] \<longrightarrow>
      (\<exists>top rest.
         mset (top @ rest) = mset working \<and>
         sorted (map snd (top @ rest)) \<and>
         (\<forall>k. filter (\<lambda>x. snd x = k) (top @ rest) = filter (\<lambda>x. snd x = k) working) \<and>
         length top = min 5 (length working) \<and>
         top5_lines working =
           Print ''TOP 5 FASTEST SERVERS:'' # map top5_entry (zip [1 ..< 6] top) @
           (if 5 < length working
            then [Print (''  ... '' @ str_nat (length rest) @ '' more servers'')] else []) @
           [Print []]))"
proof (intro conjI impI)
  show "top5_lines [] = []"
    by (simp add: top5_lines_def)
next
  assume ne: "working \<noteq> []"
  define top where "top = take 5 (sort_key snd working)"
  define rest where "rest = drop 5 (sort_key snd working)"
  have whole: "top @ rest = sort_key snd working"
    by (simp add: top_def rest_def)
  have 1: "mset (top @ rest) = mset working"
    unfolding whole by simp
  have 2: "sorted (map snd (top @ rest))"
    unfolding whole by (rule sorted_sort_key)
  have 3: "filter (\<lambda>x. snd x = k) (top @ rest) = filter (\<lambda>x. snd x = k) working" for k
    unfolding whole by (rule sort_key_stable)
  have 4: "length top = min 5 (length working)"
    by (simp add: top_def min_def)
  have 5: "length rest = length working - 5"
    by (simp add: rest_def)
  have 6: "top5_lines working =
           Print ''TOP 5 FASTEST SERVERS:'' # map top5_entry (zip [1 ..< 6] top) @
           (if 5 < length working
            then [Print (''  ... '' @ str_nat (length rest) @ '' more servers'')] else []) @
           [Print []]"
    using ne by (simp add: top5_lines_def top_def 5)
  from 1 2 3 4 6 show "\<exists>top rest.
         mset (top @ rest) = mset working \<and>
         sorted (map snd (top @ rest)) \<and>
         (\<forall>k. filter (\<lambda>x. snd x = k) (top @ rest) = filter (\<lambda>x. snd x = k) working) \<and>
         length top = min 5 (length working) \<and>
         top5_lines working =
           Print ''TOP 5 FASTEST SERVERS:'' # map top5_entry (zip [1 ..< 6] top) @
           (if 5 < length working
            then [Print (''  ... '' @ str_nat (length rest) @ '' more servers'')] else []) @
           [Print []]"
    by blast
qed

theorem top5_fastest_witness:
  "top5_lines [(''10.0.0.1'', 5), (''10.0.0.2'', 3), (''10.0.0.3'', 5), (''10.0.0.4'', 1),
               (''10.0.0.5'', 3), (''10.0.0.6'', 9), (''10.0.0.7'', 0)] =
     [Print ''TOP 5 FASTEST SERVERS:'',
      Print ''  1. 10.0.0.7        0ms'',
      Print ''  2. 10.0.0.4        1ms'',
      Print ''  3. 10.0.0.2        3ms'',
      Print ''  4. 10.0.0.5        3ms'',
      Print ''  5. 10.0.0.1        5ms'',
      Print ''  ... 2 more servers'',
      Print []] \<and>
   top5_lines [(''10.0.0.1'', 5), (''10.0.0.2'', 3)] =
     [Print ''TOP 5 FASTEST SERVERS:'',
      Print ''  1. 10.0.0.2        3ms'',
      Print ''  2. 10.0.0.1        5ms'',
      Print []] \<and>
   (\<exists>top rest. mset (top @ rest) = mset [(''10.0.0.1'', 5 :: rat), (''10.0.0.2'', 3)] \<and>
      length top = 2 \<and> sorted (map snd (top @ rest)))"
proof -
  have upt6: "[Suc 0 ..< 6] = [Suc 0, 2, 3, 4, 5]"
    by (simp add: upt_rec)
  have pad: "replicate 7 c = [c, c, c, c, c, c, c]" for c :: char
    by (simp add: numeral_eq_Suc)
  have a: "top5_lines [(''10.0.0.1'', 5), (''10.0.0.2'', 3), (''10.0.0.3'', 5), (''10.0.0.4'', 1),
               (''10.0.0.5'', 3), (''10.0.0.6'', 9), (''10.0.0.7'', 0)] =
     [Print ''TOP 5 FASTEST SERVERS:'',
      Print ''  1. 10.0.0.7        0ms'',
      Print ''  2. 10.0.0.4        1ms'',
      Print ''  3. 10.0.0.2        3ms'',
      Print ''  4. 10.0.0.5        3ms'',
      Print ''  5. 10.0.0.1        5ms'',
      Print ''  ... 2 more servers'',
      Print []]"
    by (simp add: top5_lines_def top5_entry_def ljust_def upt6 pad fmt_eval)
  have b: "top5_lines [(''10.0.0.1'', 5), (''10.0.0.2'', 3)] =
     [Print ''TOP 5 FASTEST SERVERS:'',
      Print ''  1. 10.0.0.2        3ms'',
      Print ''  2. 10.0.0.1        5ms'',
      Print []]"
    by (simp add: top5_lines_def top5_entry_def ljust_def upt6 pad fmt_eval)
  have "\<exists>top rest. mset (top @ rest) = mset [(''10.0.0.1'', 5 :: rat), (''10.0.0.2'', 3)] \<and>
      length top = 2 \<and> sorted (map snd (top @ rest))"
  proof -
    from top5_fastest [of "[(''10.0.0.1'', 5), (''10.0.0.2'', 3)]"]
    obtain top rest where
      "mset (top @ rest) = mset [(''10.0.0.1'', 5 :: rat), (''10.0.0.2'', 3)]"
      "sorted (map snd (top @ rest))"
      "length top = min 5 (length [(''10.0.0.1'', 5 :: rat), (''10.0.0.2'', 3)])"
      by blast
    then have "mset (top @ rest) = mset [(''10.0.0.1'', 5 :: rat), (''10.0.0.2'', 3)] \<and>
      length top = 2 \<and> sorted (map snd (top @ rest))"
      by simp
    then show ?thesis by blast
  qed
  with a b show ?thesis by blast
qed

subsection \<open>Loading the candidates\<close>

lemma print_fields [simp]:
  "ledger (print s w) = ledger w"
  "servers_file (print s w) = servers_file w"
  "queries (print s w) = queries w"
  "stdout (print s w) = stdout w @ [Print s]"
  by (simp_all add: print_def)

text \<open>
  The lines that one call of \<^verbatim>\<open>load_servers\<close> prints for a file without addresses.
\<close>

lemma no_address_loop:
  assumes "servers_file w = Some content" and "findall content = []"
  shows "load_servers filepath (Suc depth) w =
           (Inr [],
            w\<lparr>stdout := stdout w @
               concat (replicate (Suc depth)
                 [Print (''Extracted 0 UNIQUE IPv4 addresses from '' @ filepath),
                  Print ''Total IPs found (with duplicates): 0'',
                  Print ''UNIQUE IPs:  0'',
                  Print ''No valid IPv4 addresses found. Creating sample file...'']) @
               [Print ''Error loading servers: maximum recursion depth exceeded'']\<rparr>)"
  using assms
proof (induction depth arbitrary: w)
  case 0
  then show ?case
    by (simp add: create_sample_servers_def str_nat_small print_def)
next
  case (Suc depth)
  define w' where "w' = create_sample_servers
     (print ''No valid IPv4 addresses found. Creating sample file...''
       (print (''UNIQUE IPs:  '' @ str_nat (length (remdups (findall content))))
         (print (''Total IPs found (with duplicates): '' @ str_nat (length (findall content)))
           (print (''Extracted '' @ str_nat (length (remdups (findall content))) @
                   '' UNIQUE IPv4 addresses from '' @ filepath) w))))"
  have f: "servers_file w' = Some content"
    using Suc.prems by (simp add: w'_def create_sample_servers_def)
  have o: "stdout w' = stdout w @
     [Print (''Extracted 0 UNIQUE IPv4 addresses from '' @ filepath),
      Print ''Total IPs found (with duplicates): 0'',
      Print ''UNIQUE IPs:  0'',
      Print ''No valid IPv4 addresses found. Creating sample file...'']"
    using Suc.prems by (simp add: w'_def create_sample_servers_def str_nat_small)
  have rest: "w'\<lparr>stdout := x\<rparr> = w\<lparr>stdout := x\<rparr>" for x
    using Suc.prems by (simp add: w'_def create_sample_servers_def print_def)
  have "load_servers filepath (Suc (Suc depth)) w =
          (case load_servers filepath (Suc depth) w' of
             (Inl x, w4) \<Rightarrow> (Inr [], print (''Error loading servers: '' @ exn_str x) w4)
           | (Inr found, w4) \<Rightarrow> (Inr found, w4))"
    using Suc.prems by (simp add: w'_def Let_def)
  also have "\<dots> = (Inr [], w'\<lparr>stdout := stdout w' @
               concat (replicate (Suc depth)
                 [Print (''Extracted 0 UNIQUE IPv4 addresses from '' @ filepath),
                  Print ''Total IPs found (with duplicates): 0'',
                  Print ''UNIQUE IPs:  0'',
                  Print ''No valid IPv4 addresses found. Creating sample file...'']) @
               [Print ''Error loading servers: maximum recursion depth exceeded'']\<rparr>)"
    using Suc.IH [OF f Suc.prems(2)] by simp
  finally show ?case
    by (simp add: o rest)
qed

lemmas findall_eval = findall_def match_here_def ip_pattern_def octet_def at_boundary_def
  is_word_def

lemma findall_comment: "findall ''# no servers yet'' = []"
  by (simp add: findall_eval)

text \<open>
  When the file does not exist, \<^verbatim>\<open>create_sample_servers\<close> writes it and the second call
  of \<^verbatim>\<open>load_servers\<close> finds the sample servers in it.
\<close>

lemma missing_file_gives_samples:
  assumes "servers_file w = None"
  shows "fst (load_servers filepath (Suc (Suc depth)) w) = Inr sample_servers"
  using assms
  by (simp add: create_sample_servers_def sample_servers_def nl_def findall_eval Let_def)

text \<open>
  C5 fails on the code. When \<^verbatim>\<open>dns_servers.txt\<close> exists and holds no address,
  \<^verbatim>\<open>create_sample_servers\<close> returns at once because the file exists, so the recursive
  call reads the same file again; the calls nest until the interpreter raises
  \<^verbatim>\<open>RecursionError\<close>, which \<^verbatim>\<open>except Exception\<close> catches, and \<^verbatim>\<open>load_servers\<close> returns
  the empty list, not the sample servers. The file is left as it was.
\<close>

theorem no_address_file_gives_no_servers:
  assumes "servers_file w = Some content" and "findall content = []" and "0 < depth"
  shows "fst (load_servers filepath depth w) = Inr [] \<and>
         servers_file (snd (load_servers filepath depth w)) = Some content"
proof -
  from \<open>0 < depth\<close> obtain d where "depth = Suc d"
    by (cases depth) auto
  with no_address_loop [OF assms(1,2), of filepath d] assms(1) show ?thesis
    by simp
qed

theorem no_address_file_gives_no_servers_witness:
  "findall ''# no servers yet'' = [] \<and>
   fst (load_servers ''/opt/dns_servers.txt'' 1000
          (blank\<lparr>servers_file := Some ''# no servers yet''\<rparr>)) = Inr [] \<and>
   fst (load_servers ''/opt/dns_servers.txt'' 1000 blank) = Inr sample_servers"
proof -
  have "fst (load_servers ''/opt/dns_servers.txt'' 1000
          (blank\<lparr>servers_file := Some ''# no servers yet''\<rparr>)) = Inr []"
    using no_address_file_gives_no_servers
      [of "blank\<lparr>servers_file := Some ''# no servers yet''\<rparr>" "''# no servers yet''" 1000
          "''/opt/dns_servers.txt''"]
    by (simp add: findall_comment)
  moreover have "fst (load_servers ''/opt/dns_servers.txt'' 1000 blank) = Inr sample_servers"
    using missing_file_gives_samples [of blank "''/opt/dns_servers.txt''" 998]
    by (simp add: blank_def)
  ultimately show ?thesis
    by (simp add: findall_comment)
qed

subsection \<open>A run without candidates\<close>

lemma check_no_servers:
  assumes "load_servers filepath (recursion_limit e)
             (print (replicate 70 CHR ''='') (print ''Azadi DNS Tester'' w)) = (Inr [], w1)"
  shows "check_dns_servers e filepath w = (Inr [], print ''No servers to test. Exiting.'' w1)"
  using assms by (simp add: check_dns_servers_def)

lemma success_rate_total: "success_rate e working servers \<noteq> Inl ZeroDivisionError"
  by (simp add: success_rate_def truediv_def)

lemma cons_neq_replicate: "c \<noteq> x \<Longrightarrow> c # s \<noteq> replicate n x"
  by (cases n) auto

text \<open>The run of the bench on a file that holds no address.\<close>

lemma lab_no_address_run:
  "check_dns_servers lab ''/opt/dns_servers.txt''
     (blank\<lparr>ledger := old, servers_file := Some ''# no servers yet''\<rparr>) =
   (Inr [],
    \<lparr>ledger = old, servers_file = Some ''# no servers yet'', stdin = [],
       stdout =
         [Print ''Azadi DNS Tester'', Print (replicate 70 CHR ''='')] @
         concat (replicate 1000
           [Print ''Extracted 0 UNIQUE IPv4 addresses from /opt/dns_servers.txt'',
            Print ''Total IPs found (with duplicates): 0'',
            Print ''UNIQUE IPs:  0'',
            Print ''No valid IPv4 addresses found. Creating sample file...'']) @
         [Print ''Error loading servers: maximum recursion depth exceeded'',
          Print ''No servers to test. Exiting.''],
       queries = []\<rparr>)"
proof -
  define w where "w = print (replicate 70 CHR ''='') (print ''Azadi DNS Tester''
     (blank\<lparr>ledger := old, servers_file := Some ''# no servers yet''\<rparr>))"
  have "servers_file w = Some ''# no servers yet''"
    by (simp add: w_def)
  from no_address_loop [OF this findall_comment, of "''/opt/dns_servers.txt''" 999]
  have "load_servers ''/opt/dns_servers.txt'' (recursion_limit lab) w =
          (Inr [],
           w\<lparr>stdout := stdout w @
              concat (replicate 1000
                [Print ''Extracted 0 UNIQUE IPv4 addresses from /opt/dns_servers.txt'',
                 Print ''Total IPs found (with duplicates): 0'',
                 Print ''UNIQUE IPs:  0'',
                 Print ''No valid IPv4 addresses found. Creating sample file...'']) @
              [Print ''Error loading servers: maximum recursion depth exceeded'']\<rparr>)"
    by (simp add: lab_def)
  from check_no_servers [OF this [unfolded w_def]] show ?thesis
    by (simp add: blank_def print_def)
qed

text \<open>
  C7, as the code has it. With no candidates \<^verbatim>\<open>check_dns_servers\<close> prints
  \<^verbatim>\<open>No servers to test. Exiting.\<close> and returns the empty list at once: it asks for no
  configuration, sends no query and prints no summary, so neither a total nor a success
  rate is reported. No division error is raised there, and none can be raised by the
  success rate of the summary, which is 0 for an empty list of servers.
\<close>

theorem no_candidates_exit:
  assumes "load_servers filepath (recursion_limit e)
             (print (replicate 70 CHR ''='') (print ''Azadi DNS Tester'' w)) = (Inr [], w1)"
  shows "check_dns_servers e filepath w = (Inr [], print ''No servers to test. Exiting.'' w1) \<and>
         success_rate e working ([] :: string list) = Inr 0 \<and>
         (\<forall>servers :: string list. success_rate e working servers \<noteq> Inl ZeroDivisionError)"
  using check_no_servers [OF assms]
  by (simp add: success_rate_total) (simp add: success_rate_def)

theorem no_candidates_exit_witness:
  "fst (check_dns_servers lab ''/opt/dns_servers.txt''
          (blank\<lparr>servers_file := Some ''# no servers yet''\<rparr>)) = Inr [] \<and>
   last (stdout (snd (check_dns_servers lab ''/opt/dns_servers.txt''
          (blank\<lparr>servers_file := Some ''# no servers yet''\<rparr>)))) =
     Print ''No servers to test. Exiting.'' \<and>
   success_rate lab [(''1.1.1.1'', Some (20 :: rat))] ([] :: string list) = Inr 0"
proof -
  define w where "w = print (replicate 70 CHR ''='') (print ''Azadi DNS Tester''
     (blank\<lparr>servers_file := Some ''# no servers yet''\<rparr>))"
  have "servers_file w = Some ''# no servers yet''"
    by (simp add: w_def)
  from no_address_loop [OF this findall_comment, of "''/opt/dns_servers.txt''" 999]
  obtain w1 where "load_servers ''/opt/dns_servers.txt'' (recursion_limit lab) w = (Inr [], w1)"
    by (simp add: lab_def)
  from no_candidates_exit [OF this [unfolded w_def], of "[(''1.1.1.1'', Some (20 :: rat))]"]
  show ?thesis
    by simp
qed

text \<open>
  The claim as it is written fails: the run on a file without addresses returns the
  empty list and leaves the terminal without the lines of the summary.
\<close>

theorem no_summary_counterexample:
  "fst (check_dns_servers lab ''/opt/dns_servers.txt''
          (blank\<lparr>ledger := Some ''8.8.8.8 (12ms)'', servers_file := Some ''# no servers yet''\<rparr>)) =
     Inr [] \<and>
   Print ''Total servers tested: 0'' \<notin>
     set (stdout (snd (check_dns_servers lab ''/opt/dns_servers.txt''
          (blank\<lparr>ledger := Some ''8.8.8.8 (12ms)'', servers_file := Some ''# no servers yet''\<rparr>)))) \<and>
   Print ''Working servers:      0 (0.0%)'' \<notin>
     set (stdout (snd (check_dns_servers lab ''/opt/dns_servers.txt''
          (blank\<lparr>ledger := Some ''8.8.8.8 (12ms)'', servers_file := Some ''# no servers yet''\<rparr>))))"
  by (simp add: lab_no_address_run cons_neq_replicate)

subsection \<open>The test domain\<close>

lemma input_line_next:
  "stdin w = l # ls \<Longrightarrow>
   input_line prompt w = (Inr l, w\<lparr>stdout := stdout w @ [Prompt prompt], stdin := ls\<rparr>)"
  by (simp add: input_line_def)

lemma menu_stdin:
  "stdin (foldl (\<lambda>w' (i, domain). print (''  '' @ str_nat i @ ''. '' @ domain) w') w items) =
   stdin w"
  by (induction items arbitrary: w) (auto simp: case_prod_beta)

lemma dot_not_digit:
  assumes "CHR ''.'' \<in> set choice"
  shows "\<not> isdigit choice"
proof -
  have "\<not> is_digit_char CHR ''.''"
    by (simp add: is_digit_char_def is_ascii_digit_def)
  with assms show ?thesis
    unfolding isdigit_def list_all_iff by blast
qed

lemma domain_loop_nonempty: "domain_loop w = (Inr d, w') \<Longrightarrow> d \<noteq> []"
proof (induction w rule: domain_loop.induct)
  case (1 w)
  show ?case
  proof (cases "input_line (nl @ ''Enter choice (1-3 or domain): '') w")
    case (Pair r w1)
    show ?thesis
    proof (cases r)
      case (Inl x)
      with Pair "1.prems" show ?thesis
        by (simp add: domain_loop.simps [of w])
    next
      case (Inr l)
      note line = Pair [unfolded Inr]
      show ?thesis
      proof (cases "menu_number (strip l)")
        case (Inl x)
        with line "1.prems" show ?thesis
          by (simp add: domain_loop.simps [of w])
      next
        case pick: (Inr m)
        show ?thesis
        proof (cases m)
          case (Some n)
          with pick have "1 \<le> n \<and> n \<le> 3"
            by (auto simp: menu_number_def split: if_splits option.splits)
          then have "n = 1 \<or> n = 2 \<or> n = 3"
            by arith
          then have "domains ! nat (n - 1) \<noteq> []"
            by (auto simp: domains_def)
          with line pick Some "1.prems" show ?thesis
            by (auto simp: domain_loop.simps [of w])
        next
          case None
          show ?thesis
          proof (cases "strip l \<noteq> [] \<and> CHR ''.'' \<in> set (strip l) \<and>
                        \<not> (startswith (strip l) ''http://'' \<or> startswith (strip l) ''https://'')")
            case True
            with line pick None "1.prems" show ?thesis
              by (auto simp: domain_loop.simps [of w])
          next
            case False
            show ?thesis
            proof (cases "strip l = []")
              case True
              with line pick None False "1.prems" show ?thesis
                by (auto simp: domain_loop.simps [of w])
            next
              case nonempty: False
              with line pick None False "1.prems" have
                "domain_loop (print ''Invalid! Use 1-3 or valid domain (e.g., example.com)'' w1) =
                   (Inr d, w')"
                by (auto simp: domain_loop.simps [of w] Let_def split: if_splits)
              then show ?thesis
                by (rule "1.IH" [OF line [symmetric] refl refl pick None False nonempty])
            qed
          qed
        qed
      qed
    qed
  qed
qed

lemma domain_loop_first:
  assumes "stdin w = l # ls"
  shows "menu_number (strip l) = Inr (Some n) \<Longrightarrow>
           fst (domain_loop w) = Inr (domains ! nat (n - 1))"
    and "CHR ''.'' \<in> set (strip l) \<Longrightarrow>
         \<not> startswith (strip l) ''http://'' \<Longrightarrow> \<not> startswith (strip l) ''https://'' \<Longrightarrow>
           fst (domain_loop w) = Inr (strip l)"
    and "strip l = [] \<Longrightarrow> fst (domain_loop w) = Inr ''google.com''"
proof -
  note first = input_line_next [OF assms, of "nl @ ''Enter choice (1-3 or domain): ''"]
  show "fst (domain_loop w) = Inr (domains ! nat (n - 1))"
    if "menu_number (strip l) = Inr (Some n)"
    using that first by (simp add: domain_loop.simps [of w])
  show "fst (domain_loop w) = Inr (strip l)"
    if "CHR ''.'' \<in> set (strip l)" "\<not> startswith (strip l) ''http://''"
       "\<not> startswith (strip l) ''https://''"
  proof -
    from that(1) have "menu_number (strip l) = Inr None"
      by (simp add: menu_number_def dot_not_digit)
    moreover from that(1) have "strip l \<noteq> []"
      by auto
    ultimately show ?thesis
      using that first by (simp add: domain_loop.simps [of w])
  qed
  show "fst (domain_loop w) = Inr ''google.com''" if "strip l = []"
  proof -
    from that have "menu_number (strip l) = Inr None"
      by (simp add: menu_number_def isdigit_def)
    with that first show ?thesis
      by (simp add: domain_loop.simps [of w])
  qed
qed

lemmas int_eval = menu_number_def isdigit_def is_digit_char_def is_ascii_digit_def py_int_def
  int_body_def num_val_def digit_val_def strip_def is_space_def

lemma menu_numbers:
  "menu_number ''1'' = Inr (Some 1)" "menu_number ''2'' = Inr (Some 2)"
  "menu_number ''3'' = Inr (Some 3)"
  by (simp_all add: int_eval)

text \<open>
  C10. Whatever \<^verbatim>\<open>get_test_domain\<close> returns is not empty. For the line that is read
  first, after \<^verbatim>\<open>strip()\<close>: a text that holds a dot and starts with neither
  \<^verbatim>\<open>http://\<close> nor \<^verbatim>\<open>https://\<close> is returned as it is, whatever its other characters;
  the empty text gives \<^verbatim>\<open>google.com\<close>; and \<^verbatim>\<open>1\<close>, \<^verbatim>\<open>2\<close>, \<^verbatim>\<open>3\<close> give the
  entries of the menu.
\<close>

theorem test_domain_validation:
  "(get_test_domain w = (Inr d, w') \<longrightarrow> d \<noteq> []) \<and>
   (stdin w = l # ls \<and> CHR ''.'' \<in> set (strip l) \<and>
    \<not> startswith (strip l) ''http://'' \<and> \<not> startswith (strip l) ''https://'' \<longrightarrow>
      fst (get_test_domain w) = Inr (strip l)) \<and>
   (stdin w = l # ls \<and> strip l = [] \<longrightarrow> fst (get_test_domain w) = Inr ''google.com'') \<and>
   (stdin w = l # ls \<and> strip l = ''1'' \<longrightarrow> fst (get_test_domain w) = Inr ''google.com'') \<and>
   (stdin w = l # ls \<and> strip l = ''2'' \<longrightarrow> fst (get_test_domain w) = Inr ''cloudflare.com'') \<and>
   (stdin w = l # ls \<and> strip l = ''3'' \<longrightarrow> fst (get_test_domain w) = Inr ''example.com'')"
proof -
  define w0 where "w0 = print ''  or type your own domain''
         (foldl (\<lambda>w' (i, domain). print (''  '' @ str_nat i @ ''. '' @ domain) w')
            (print (nl @ ''Test domains (enter number 1-3 or type domain):'') w)
            (zip [1 ..< Suc (length domains)] domains))"
  have g: "get_test_domain w = domain_loop w0"
    by (simp add: get_test_domain_def w0_def)
  have s: "stdin w0 = stdin w"
    by (simp only: w0_def stdin_print menu_stdin)
  have 1: "d \<noteq> []" if "get_test_domain w = (Inr d, w')"
    using that domain_loop_nonempty [of w0 d w'] by (simp add: g)
  have 2: "fst (get_test_domain w) = Inr (strip l)"
    if "stdin w = l # ls" "CHR ''.'' \<in> set (strip l)"
       "\<not> startswith (strip l) ''http://''" "\<not> startswith (strip l) ''https://''"
    using that domain_loop_first(2) [of w0 l ls] by (simp add: g s)
  have 3: "fst (get_test_domain w) = Inr ''google.com''" if "stdin w = l # ls" "strip l = []"
    using that domain_loop_first(3) [of w0 l ls] by (simp add: g s)
  have 4: "fst (get_test_domain w) = Inr ''google.com''" if "stdin w = l # ls" "strip l = ''1''"
    using that domain_loop_first(1) [of w0 l ls 1] by (simp add: g s menu_numbers domains_def)
  have 5: "fst (get_test_domain w) = Inr ''cloudflare.com''"
    if "stdin w = l # ls" "strip l = ''2''"
    using that domain_loop_first(1) [of w0 l ls 2] by (simp add: g s menu_numbers domains_def)
  have 6: "fst (get_test_domain w) = Inr ''example.com''" if "stdin w = l # ls" "strip l = ''3''"
    using that domain_loop_first(1) [of w0 l ls 3] by (simp add: g s menu_numbers domains_def)
  from 1 2 3 4 5 6 show ?thesis by blast
qed

theorem test_domain_validation_witness:
  "fst (get_test_domain (blank\<lparr>stdin := [''  exa mple!.c  '']\<rparr>)) = Inr ''exa mple!.c'' \<and>
   fst (get_test_domain (blank\<lparr>stdin := ['' '']\<rparr>)) = Inr ''google.com'' \<and>
   fst (get_test_domain (blank\<lparr>stdin := [''2'']\<rparr>)) = Inr ''cloudflare.com'' \<and>
   ''exa mple!.c'' \<noteq> []"
proof -
  have a: "strip ''  exa mple!.c  '' = ''exa mple!.c''" "strip '' '' = []" "strip ''2'' = ''2''"
    by (simp_all add: strip_def is_space_def)
  note t = test_domain_validation
  from t [of "blank\<lparr>stdin := [''  exa mple!.c  '']\<rparr>" _ _ "''  exa mple!.c  ''" "[]"]
  have 1: "fst (get_test_domain (blank\<lparr>stdin := [''  exa mple!.c  '']\<rparr>)) = Inr ''exa mple!.c''"
    by (simp add: a startswith_def)
  from t [of "blank\<lparr>stdin := ['' '']\<rparr>" _ _ "'' ''" "[]"]
  have 2: "fst (get_test_domain (blank\<lparr>stdin := ['' '']\<rparr>)) = Inr ''google.com''"
    by (simp add: a)
  from t [of "blank\<lparr>stdin := [''2'']\<rparr>" _ _ "''2''" "[]"]
  have 3: "fst (get_test_domain (blank\<lparr>stdin := [''2'']\<rparr>)) = Inr ''cloudflare.com''"
    by (simp add: a)
  from 1 2 3 show ?thesis by simp
qed

subsection \<open>The ledger after a run\<close>

lemma probe_ledger:
  "ledger (snd (test_single_server e server domain tmo w)) =
     (if succeeded (outcome e domain tmo server)
      then Some ((case ledger w of None \<Rightarrow> [] | Some text \<Rightarrow> text) @ ledger_line e server)
      else ledger w)"
  by (simp add: outcome_def succeeded_def test_single_server_def Let_def real_time_save_def
      ledger_line_def
      split: sum.splits py_exn.splits option.splits query_result.splits)

lemma run_tasks_ledger:
  "ledger w = Some body \<Longrightarrow>
   ledger (snd (run_tasks e domain tmo order w)) =
     Some (body @ concat (map (ledger_line e)
                     (filter (\<lambda>s. succeeded (outcome e domain tmo s)) order)))"
proof (induction order arbitrary: w body)
  case Nil
  then show ?case by simp
next
  case (Cons s order)
  obtain r w1 where p: "test_single_server e s domain tmo w = (r, w1)"
    by (cases "test_single_server e s domain tmo w")
  obtain rs w2 where t: "run_tasks e domain tmo order w1 = (rs, w2)"
    by (cases "run_tasks e domain tmo order w1")
  have l1: "ledger w1 =
      Some (if succeeded (outcome e domain tmo s) then body @ ledger_line e s else body)"
    using probe_ledger [of e s domain tmo w] p Cons.prems by simp
  from Cons.IH [OF l1] t p show ?case
    by simp
qed

lemma collect_ledger:
  "collect futs (working, failed, w) = (working', failed', w') \<Longrightarrow> ledger w' = ledger w"
proof (induction futs arbitrary: working failed w)
  case Nil
  then show ?case by simp
next
  case (Cons f futs)
  obtain s r where f: "f = (s, r)" by (cases f)
  show ?case
  proof (cases r)
    case (Inl x)
    with f Cons.prems Cons.IH [of working "failed @ [s]"
        "print (''CRASH '' @ s @ '': '' @ take 30 (exn_str x)) w"]
    show ?thesis by simp
  next
    case (Inr p)
    obtain success ip rt message where "p = (success, (ip, rt), message)"
      by (cases p) auto
    with f Inr Cons.prems
      Cons.IH [of "working @ [(ip, rt)]" failed
        "w\<lparr>stdout := stdout w @ [CheckMark ('' '' @ message)]\<rparr>"]
      Cons.IH [of working "failed @ [ip]"
        "w\<lparr>stdout := stdout w @ [CrossMark ('' '' @ message)]\<rparr>"]
    show ?thesis by (cases success) simp_all
  qed
qed

lemma dispatch_ledger:
  assumes "ledger w = Some body"
  shows "ledger (snd (snd (dispatch e servers workers tmo domain w))) =
           Some (body @ concat (map (ledger_line e)
              (filter (\<lambda>s. succeeded (outcome e domain tmo s))
                 (run_order e (nat workers) servers))))"
proof -
  obtain futs w1 where
    r: "run_tasks e domain tmo (run_order e (nat workers) servers) w = (futs, w1)"
    by (cases "run_tasks e domain tmo (run_order e (nat workers) servers) w")
  obtain working failed w2 where
    c: "collect (completion e (nat workers) futs) ([], [], w1) = (working, failed, w2)"
    by (cases "collect (completion e (nat workers) futs) ([], [], w1)") auto
  from run_tasks_ledger [OF assms, of e domain tmo "run_order e (nat workers) servers"] r
  have "ledger w1 = Some (body @ concat (map (ledger_line e)
              (filter (\<lambda>s. succeeded (outcome e domain tmo s))
                 (run_order e (nat workers) servers))))"
    by simp
  with collect_ledger [OF c] r c show ?thesis
    by (simp add: dispatch_def)
qed

lemma top5_report_ledger: "ledger (snd (top5_report working w)) = ledger w"
  by (simp add: top5_report_def split: option.splits)

lemma report_ledger:
  "ledger (snd (report e servers domain working failed w)) = ledger w"
  by (simp add: report_def Let_def top5_report_def
      split: sum.splits option.splits)

lemma run_tests_ledger:
  "ledger (snd (run_tests e servers workers tmo domain w)) =
     Some (header_text (now e) domain @
           concat (map (ledger_line e)
             (filter (\<lambda>s. succeeded (outcome e domain tmo s))
                (run_order e (nat workers) servers))))"
proof -
  define w2 where "w2 = announce servers workers tmo domain (write_header e domain w)"
  have h: "ledger w2 = Some (header_text (now e) domain)"
    by (simp add: w2_def write_header_def announce_def)
  obtain working failed w4 where
    d: "dispatch e servers workers tmo domain w2 = (working, failed, w4)"
    by (cases "dispatch e servers workers tmo domain w2") auto
  from dispatch_ledger [OF h, of e servers workers tmo domain] d
  have "ledger w4 = Some (header_text (now e) domain @
           concat (map (ledger_line e)
             (filter (\<lambda>s. succeeded (outcome e domain tmo s))
                (run_order e (nat workers) servers))))"
    by simp
  with d show ?thesis
    by (simp add: run_tests_def w2_def [symmetric] report_ledger)
qed

lemma load_found:
  assumes "servers_file w = Some content" and "remdups (findall content) \<noteq> []"
  shows "fst (load_servers filepath (Suc depth) w) = Inr (remdups (findall content)) \<and>
         stdin (snd (load_servers filepath (Suc depth) w)) = stdin w \<and>
         ledger (snd (load_servers filepath (Suc depth) w)) = ledger w"
  using assms by (simp add: Let_def)

lemma worker_default:
  assumes "stdin w = l # ls" and "strip l = []"
  shows "\<exists>w'. get_worker_count w = (Inr 100, w') \<and> stdin w' = ls"
  using assms by (simp add: get_worker_count.simps [of w] input_line_def)

lemma timeout_default:
  assumes "stdin w = l # ls" and "strip l = []"
  shows "\<exists>w'. get_timeout w = (Inr 3, w') \<and> stdin w' = ls"
  using assms by (simp add: get_timeout.simps [of w] input_line_def)

lemma worker_eof:
  assumes "stdin w = []"
  shows "\<exists>w'. get_worker_count w = (Inl EOFError, w') \<and> ledger w' = ledger w"
  using assms by (simp add: get_worker_count.simps [of w] input_line_def)

lemma findall_two: "findall ''1.1.1.1 203.0.113.5'' = [''1.1.1.1'', ''203.0.113.5'']"
  by (simp add: findall_eval)

text \<open>
  C8, as the code has it. A run that has loaded at least one candidate and has its
  three answers calls \<^verbatim>\<open>write_header\<close> once, before the pool starts, and the header
  replaces whatever the ledger held: after the run the ledger is the three header lines
  (time of the run, test domain, format) followed by the line
  \<^verbatim>\<open><ip> (<latency>ms)\<close> of every probe that succeeded, one each, in the order in which
  the pool ran them. Nothing of an earlier ledger is left.
\<close>

theorem ledger_after_run:
  assumes "load_servers filepath (recursion_limit e)
             (print (replicate 70 CHR ''='') (print ''Azadi DNS Tester'' w)) = (Inr servers, w1)"
    and "servers \<noteq> []"
    and "get_worker_count w1 = (Inr workers, w2)"
    and "get_timeout w2 = (Inr tmo, w3)"
    and "get_test_domain w3 = (Inr domain, w4)"
  shows "ledger (snd (check_dns_servers e filepath w)) =
           Some (header_text (now e) domain @
                 concat (map (ledger_line e)
                   (filter (\<lambda>s. succeeded (outcome e domain tmo s))
                      (run_order e (nat workers) servers)))) \<and>
         ledger (write_header e domain w4) =
           Some (''# Working DNS servers - Tested: '' @ now e @ nl @
                 ''# Test domain: '' @ domain @ nl @
                 ''# Format: IP (response_time_ms)'' @ nl) \<and>
         ledger_line e server = server @ '' ('' @ fmt_f 0 (elapsed_ms e server) @ ''ms)'' @ nl"
  using assms
  by (simp add: check_dns_servers_def run_tests_ledger write_header_def header_text_def
      ledger_line_def)

theorem ledger_after_run_witness:
  "ledger (snd (check_dns_servers lab ''/opt/dns_servers.txt''
     (blank\<lparr>ledger := Some (''8.8.8.8 (12ms)'' @ nl),
            servers_file := Some ''1.1.1.1 203.0.113.5'',
            stdin := ['''', '''', '''']\<rparr>))) =
   Some (''# Working DNS servers - Tested: 2024-05-01 12:00:00'' @ nl @
         ''# Test domain: google.com'' @ nl @
         ''# Format: IP (response_time_ms)'' @ nl @
         ''1.1.1.1 (20ms)'' @ nl)"
proof -
  define w0 where "w0 = blank\<lparr>ledger := Some (''8.8.8.8 (12ms)'' @ nl),
            servers_file := Some ''1.1.1.1 203.0.113.5'', stdin := ['''', '''', '''']\<rparr>"
  define wb where "wb = print (replicate 70 CHR ''='') (print ''Azadi DNS Tester'' w0)"
  define w1 where "w1 = snd (load_servers ''/opt/dns_servers.txt'' (recursion_limit lab) wb)"
  have f: "servers_file wb = Some ''1.1.1.1 203.0.113.5''" and i: "stdin wb = ['''', '''', '''']"
    by (simp_all add: wb_def w0_def blank_def)
  have limit: "recursion_limit lab = Suc 999"
    by (simp add: lab_def)
  have found: "remdups (findall ''1.1.1.1 203.0.113.5'') = [''1.1.1.1'', ''203.0.113.5'']"
    by (simp add: findall_two)
  from load_found [OF f, of "''/opt/dns_servers.txt''" 999] found limit i
  have l: "load_servers ''/opt/dns_servers.txt'' (recursion_limit lab) wb =
             (Inr [''1.1.1.1'', ''203.0.113.5''], w1)" and i1: "stdin w1 = ['''', '''', '''']"
    by (simp_all add: w1_def prod_eq_iff)
  have blank_line: "strip '''' = []"
    by (simp add: strip_def)
  from worker_default [OF i1 blank_line] obtain w2 where
    c: "get_worker_count w1 = (Inr 100, w2)" and i2: "stdin w2 = ['''', '''']"
    by blast
  from timeout_default [OF i2 blank_line] obtain w3 where
    t: "get_timeout w2 = (Inr 3, w3)" and i3: "stdin w3 = ['''']"
    by blast
  have "fst (get_test_domain w3) = Inr ''google.com''"
    unfolding get_test_domain_def
    by (rule domain_loop_first(3) [OF _ blank_line])
       (simp only: stdin_print menu_stdin i3)
  then obtain w4 where d: "get_test_domain w3 = (Inr ''google.com'', w4)"
    by (cases "get_test_domain w3") simp
  have o1: "succeeded (outcome lab ''google.com'' 3 ''1.1.1.1'')"
    by (simp add: outcome_def succeeded_def test_single_server_def aton_1111 lab_def Let_def)
  have o2: "\<not> succeeded (outcome lab ''google.com'' 3 ''203.0.113.5'')"
    by (simp add: outcome_def succeeded_def test_single_server_def aton_doc lab_def Let_def)
  have line: "ledger_line lab ''1.1.1.1'' = ''1.1.1.1 (20ms)'' @ nl"
    by (simp add: ledger_line_def lab_def fmt_eval)
  have order: "run_order lab n servers = servers" for n servers
    by (simp add: lab_def)
  have stamp: "now lab = ''2024-05-01 12:00:00''"
    by (simp add: lab_def)
  have some: "[''1.1.1.1'', ''203.0.113.5''] \<noteq> []"
    by simp
  from ledger_after_run [OF l [unfolded wb_def] some c t d, THEN conjunct1]
  have "ledger (snd (check_dns_servers lab ''/opt/dns_servers.txt'' w0)) =
          Some (header_text ''2024-05-01 12:00:00'' ''google.com'' @ ''1.1.1.1 (20ms)'' @ nl)"
    by (simp add: order o1 o2 line stamp)
  then show ?thesis
    by (simp add: w0_def header_text_def)
qed

text \<open>
  The claim as it is written fails for a run that does not reach the tests, which
  never calls \<^verbatim>\<open>write_header\<close>. With a list of servers that holds no address the
  run ends at \<^verbatim>\<open>No servers to test. Exiting.\<close>, and with no input for the first prompt
  it ends with \<^verbatim>\<open>EOFError\<close>; both leave the ledger of the run before as it was, header
  and lines.
\<close>

theorem stale_ledger_counterexample:
  "ledger (snd (check_dns_servers lab ''/opt/dns_servers.txt''
     (blank\<lparr>ledger := Some (header_text ''2024-04-30 09:00:00'' ''example.com'' @
                              ''8.8.8.8 (12ms)'' @ nl),
            servers_file := Some ''# no servers yet''\<rparr>))) =
     Some (header_text ''2024-04-30 09:00:00'' ''example.com'' @ ''8.8.8.8 (12ms)'' @ nl) \<and>
   fst (check_dns_servers lab ''/opt/dns_servers.txt''
     (blank\<lparr>ledger := Some (header_text ''2024-04-30 09:00:00'' ''example.com'' @
                              ''8.8.8.8 (12ms)'' @ nl),
            servers_file := Some ''# no servers yet''\<rparr>)) = Inr [] \<and>
   ledger (snd (check_dns_servers lab ''/opt/dns_servers.txt''
     (blank\<lparr>ledger := Some (header_text ''2024-04-30 09:00:00'' ''example.com'' @
                              ''8.8.8.8 (12ms)'' @ nl),
            servers_file := Some ''1.1.1.1 203.0.113.5''\<rparr>))) =
     Some (header_text ''2024-04-30 09:00:00'' ''example.com'' @ ''8.8.8.8 (12ms)'' @ nl)"
proof -
  define old where "old = header_text ''2024-04-30 09:00:00'' ''example.com'' @
                          ''8.8.8.8 (12ms)'' @ nl"
  define wb where "wb = print (replicate 70 CHR ''='') (print ''Azadi DNS Tester''
     (blank\<lparr>ledger := Some old, servers_file := Some ''1.1.1.1 203.0.113.5''\<rparr>))"
  have f: "servers_file wb = Some ''1.1.1.1 203.0.113.5''" and i: "stdin wb = []"
    and k: "ledger wb = Some old"
    by (simp_all add: wb_def blank_def)
  have limit: "recursion_limit lab = Suc 999"
    by (simp add: lab_def)
  have found: "remdups (findall ''1.1.1.1 203.0.113.5'') = [''1.1.1.1'', ''203.0.113.5'']"
    by (simp add: findall_two)
  obtain r w1 where l: "load_servers ''/opt/dns_servers.txt'' (recursion_limit lab) wb = (r, w1)"
    by (cases "load_servers ''/opt/dns_servers.txt'' (recursion_limit lab) wb")
  with load_found [OF f, of "''/opt/dns_servers.txt''" 999] found limit i k
  have r: "r = Inr [''1.1.1.1'', ''203.0.113.5'']" and i1: "stdin w1 = []"
    and k1: "ledger w1 = Some old"
    by simp_all
  from worker_eof [OF i1] obtain w2 where
    c: "get_worker_count w1 = (Inl EOFError, w2)" and k2: "ledger w2 = ledger w1"
    by blast
  have "ledger (snd (check_dns_servers lab ''/opt/dns_servers.txt''
     (blank\<lparr>ledger := Some old, servers_file := Some ''1.1.1.1 203.0.113.5''\<rparr>))) = Some old"
    using l [unfolded wb_def] r c k1 k2 by (simp add: check_dns_servers_def)
  then show ?thesis
    by (simp add: lab_no_address_run old_def)
qed

end
